theory Spec2Isabelle
  imports Complex_Main "HOL-Library.Word" "HOL-Library.Sublist"
begin

section \<open>rhvoice.py: streaming plumbing of the RHVoice REST wrapper\<close>

text \<open>
  The development embeds \<^verbatim>\<open>src/rhvoice.py\<close>.  Python objects are records, every
  method takes the object and returns the updated object.  A call that would block
  (a \<^verbatim>\<open>Queue.get\<close> on an empty queue, a \<^verbatim>\<open>Thread.join\<close> on a thread that cannot
  finish) has the value \<open>None\<close>; an exception is the \<open>Inl\<close> of a sum.
\<close>

type_synonym bytes = "8 word list"

subsection \<open>FakeFile (lines 27-64)\<close>

text \<open>
  \<^verbatim>\<open>class FakeFile(queue.Queue)\<close>: the inherited FIFO of chunks (\<open>items\<close>, oldest
  first, unbounded since \<^verbatim>\<open>maxsize = 0\<close>) and the attribute \<^verbatim>\<open>_open\<close>.
\<close>

record FakeFile =
  items :: "bytes list"
  open_flag :: bool

definition FakeFile_init :: FakeFile where
  "FakeFile_init = \<lparr>items = [], open_flag = True\<rparr>"

definition FakeFile_tell :: "FakeFile \<Rightarrow> int" where
  "FakeFile_tell f = 0"

text \<open>\<^verbatim>\<open>write\<close>: \<^verbatim>\<open>if data: self.put_nowait(data)\<close>.\<close>

definition FakeFile_write :: "bytes \<Rightarrow> FakeFile \<Rightarrow> FakeFile" where
  "FakeFile_write data f = (if data \<noteq> [] then f\<lparr>items := items f @ [data]\<rparr> else f)"

text \<open>\<^verbatim>\<open>end\<close>: \<^verbatim>\<open>if self._open: self.put_nowait(b'')\<close>.\<close>

definition FakeFile_end :: "FakeFile \<Rightarrow> FakeFile" where
  "FakeFile_end f = (if open_flag f then f\<lparr>items := items f @ [[]]\<rparr> else f)"

definition FakeFile_close :: "FakeFile \<Rightarrow> FakeFile" where
  "FakeFile_close f = f"

definition FakeFile_flush :: "FakeFile \<Rightarrow> FakeFile" where
  "FakeFile_flush f = f"

text \<open>
  The loop of \<^verbatim>\<open>read\<close> (lines 45-49), over the queued chunks: every chunk is taken and
  appended to \<^verbatim>\<open>data\<close>, an empty one clears \<^verbatim>\<open>_open\<close>, and the loop goes on until the
  queue is empty.
\<close>

fun read_loop :: "bytes list \<Rightarrow> bytes \<Rightarrow> bool \<Rightarrow> bytes \<times> bool" where
  "read_loop [] data opn = (data, opn)"
| "read_loop (data_p # q) data opn =
     read_loop q (data @ data_p) (if data_p = [] then False else opn)"

text \<open>
  \<^verbatim>\<open>read\<close> (lines 40-54).  \<open>None\<close>: \<^verbatim>\<open>self.get()\<close> on the empty queue, which blocks
  until a producer puts a chunk.
\<close>

definition FakeFile_read :: "FakeFile \<Rightarrow> (bytes \<times> FakeFile) option" where
  "FakeFile_read f =
     (if \<not> open_flag f then Some ([], f)
      else if length (items f) > 1 then
        (case read_loop (items f) [] (open_flag f) of
           (data, opn) \<Rightarrow> Some (data, \<lparr>items = [], open_flag = opn\<rparr>))
      else
        (case items f of
           [] \<Rightarrow> None
         | data # q \<Rightarrow>
             Some (data, \<lparr>items = q, open_flag = (if data = [] then False else open_flag f)\<rparr>)))"

text \<open>
  A producer thread and a consumer thread share one FakeFile.  Each \<^verbatim>\<open>Queue\<close> call is
  atomic, the producer only appends and there is one consumer, so an execution is an
  interleaving of whole calls; a \<^verbatim>\<open>read\<close> stands in the schedule where it returns.
  \<open>run\<close> gives the chunks the reads returned, in order, and the final object, and is
  \<open>None\<close> when the schedule asks for a read at a point where it blocks.
\<close>

datatype op = Write bytes | End | Read

fun run :: "op list \<Rightarrow> FakeFile \<Rightarrow> (bytes list \<times> FakeFile) option" where
  "run [] f = Some ([], f)"
| "run (Write data # ops) f = run ops (FakeFile_write data f)"
| "run (End # ops) f = run ops (FakeFile_end f)"
| "run (Read # ops) f =
     (case FakeFile_read f of
        None \<Rightarrow> None
      | Some (r, f') \<Rightarrow>
          (case run ops f' of None \<Rightarrow> None | Some (rs, f'') \<Rightarrow> Some (r # rs, f'')))"

definition producer :: "op list \<Rightarrow> op list" where
  "producer ops = filter (\<lambda>x. x \<noteq> Read) ops"

text \<open>
  \<open>delivered rs f bs\<close>: the reads returned \<open>rs\<close> and left the object \<open>f\<close>, of a stream
  whose bytes are \<open>bs\<close>.  Nothing follows an empty chunk but empty chunks; the bytes
  returned are a prefix of the stream, and all of it once an empty chunk was returned;
  the next read does not block and returns what is left, and the read after it returns
  the empty chunk and changes nothing.
\<close>

definition delivered :: "bytes list \<Rightarrow> FakeFile \<Rightarrow> bytes \<Rightarrow> bool" where
  "delivered rs f bs \<longleftrightarrow>
     set (dropWhile (\<lambda>r. r \<noteq> []) rs) \<subseteq> {[]} \<and>
     prefix (concat rs) bs \<and>
     ([] \<in> set rs \<longrightarrow> concat rs = bs \<and> \<not> open_flag f) \<and>
     (case FakeFile_read f of
        None \<Rightarrow> False
      | Some (r1, f1) \<Rightarrow>
          concat rs @ r1 = bs \<and> \<not> open_flag f1 \<and> FakeFile_read f1 = Some ([], f1))"

subsection \<open>Outcomes of a call\<close>

text \<open>
  A method of a worker takes the worker and gives one of three outcomes: the call never
  returns (it waits on a queue, an event or a thread that nothing will serve), it raises
  an exception, or it returns a value; the last two give the worker as the call left it.
\<close>

datatype error =
    RuntimeError string
  | AttributeError
  | TypeError
  | AssertionError
  | ZeroDivisionError
  | WaveError string
  | StructError

datatype ('a, 's) result = Blocks | Raises error 's | Returns 'a 's

definition and_then :: "('a, 's) result \<Rightarrow> ('a \<Rightarrow> 's \<Rightarrow> ('b, 's) result) \<Rightarrow> ('b, 's) result" where
  "and_then m k = (case m of Blocks \<Rightarrow> Blocks | Raises e s \<Rightarrow> Raises e s | Returns a s \<Rightarrow> k a s)"

text \<open>\<^verbatim>\<open>try: ... finally: g\<close>: \<open>g\<close> runs on the way out, whether by return or by exception.\<close>

definition finally_do :: "('a, 's) result \<Rightarrow> ('s \<Rightarrow> 's) \<Rightarrow> ('a, 's) result" where
  "finally_do m g =
     (case m of Blocks \<Rightarrow> Blocks | Raises e s \<Rightarrow> Raises e (g s) | Returns a s \<Rightarrow> Returns a (g s))"

subsection \<open>Subprocesses, and the objects a worker shares with its threads\<close>

text \<open>
  \<^verbatim>\<open>subprocess.Popen\<close> with three pipes, as far as the worker sees it: the bytes written to
  its standard input, whether that pipe was closed, the bytes the encoder has written to
  its standard output and nobody has read yet, and whether it runs.  What an encoder
  writes is the encoder's business; the model never invents output.
\<close>

datatype status = Running | Exited | Killed

record Popen =
  args :: "string list"
  stdin_data :: bytes
  stdin_closed :: bool
  stdout_data :: bytes
  status :: status

definition Popen_init :: "string list \<Rightarrow> Popen" where
  "Popen_init a =
     \<lparr>args = a, stdin_data = [], stdin_closed = False, stdout_data = [], status = Running\<rparr>"

definition Popen_kill :: "Popen \<Rightarrow> Popen" where
  "Popen_kill p = (if status p = Running then p\<lparr>status := Killed\<rparr> else p)"

text \<open>
  \<^verbatim>\<open>wait(timeout)\<close>: \<open>in_time\<close> says whether a running subprocess exits before the timeout.
  The value is \<open>True\<close> where Python raises \<^verbatim>\<open>subprocess.TimeoutExpired\<close>.
\<close>

definition Popen_wait :: "bool \<Rightarrow> Popen \<Rightarrow> bool \<times> Popen" where
  "Popen_wait in_time p =
     (if status p \<noteq> Running then (False, p)
      else if in_time then (False, p\<lparr>status := Exited\<rparr>)
      else (True, p))"

text \<open>
  \<^verbatim>\<open>stdout.read(n)\<close> on the buffered pipe: \<open>n\<close> bytes when there are that many, everything
  left (the empty chunk at end of file) once the subprocess is gone, and a wait otherwise.
\<close>

definition stdout_read :: "nat \<Rightarrow> Popen \<Rightarrow> (bytes \<times> Popen) option" where
  "stdout_read n p =
     (if n \<le> length (stdout_data p) then
        Some (take n (stdout_data p), p\<lparr>stdout_data := drop n (stdout_data p)\<rparr>)
      else if status p = Running then None
      else Some (stdout_data p, p\<lparr>stdout_data := []\<rparr>))"

text \<open>
  A FakeFile is referred to by the worker (\<^verbatim>\<open>_file\<close>), by the wave writer (its \<^verbatim>\<open>_file\<close>) and
  by the relay thread (\<^verbatim>\<open>_in\<close>) at once, and a subprocess by the worker and by the relay
  thread, also after the worker has dropped its reference.  So the objects live in a heap,
  in the order of their creation, and a reference is an index into it.  A reference is
  made only when its object is appended, so it is always in range.
\<close>

record heap =
  procs :: "Popen list"
  files :: "FakeFile list"

text \<open>Where a wave writer writes: \<^verbatim>\<open>popen.stdin\<close> of a subprocess, or a FakeFile.\<close>

datatype target = Stdin nat | File nat

fun target_write :: "target \<Rightarrow> bytes \<Rightarrow> heap \<Rightarrow> heap" where
  "target_write (File i) data h = h\<lparr>files := (files h)[i := FakeFile_write data (files h ! i)]\<rparr>"
| "target_write (Stdin i) data h =
     h\<lparr>procs := (procs h)[i := (procs h ! i)\<lparr>stdin_data := stdin_data (procs h ! i) @ data\<rparr>]\<rparr>"

fun target_flush :: "target \<Rightarrow> heap \<Rightarrow> heap" where
  "target_flush (File i) h = h\<lparr>files := (files h)[i := FakeFile_flush (files h ! i)]\<rparr>"
| "target_flush (Stdin i) h = h"

subsection \<open>WaveWrite (lines 19-24) over \<^verbatim>\<open>wave.Wave_write\<close>\<close>

text \<open>
  \<^verbatim>\<open>struct.pack\<close> with a little-endian format: \<^verbatim>\<open>L\<close> is four bytes, \<^verbatim>\<open>H\<close> two, and a value
  out of the field's range raises \<^verbatim>\<open>struct.error\<close>.
\<close>

definition ascii :: "string \<Rightarrow> bytes" where
  "ascii s = map (\<lambda>c. of_nat (of_char c)) s"

definition le_bytes :: "nat \<Rightarrow> int \<Rightarrow> bytes" where
  "le_bytes n v = map (\<lambda>k. word_of_int (v div 2 ^ (8 * k))) [0..<n]"

definition pack_uint :: "nat \<Rightarrow> int \<Rightarrow> error + bytes" where
  "pack_uint n v = (if 0 \<le> v \<and> v < 2 ^ (8 * n) then Inr (le_bytes n v) else Inl StructError)"

datatype field = L int | H int | S bytes

fun struct_pack :: "field list \<Rightarrow> error + bytes" where
  "struct_pack [] = Inr []"
| "struct_pack (x # xs) =
     (case (case x of L v \<Rightarrow> pack_uint 4 v | H v \<Rightarrow> pack_uint 2 v | S b \<Rightarrow> Inr b) of
        Inl e \<Rightarrow> Inl e
      | Inr b \<Rightarrow> (case struct_pack xs of Inl e \<Rightarrow> Inl e | Inr bs \<Rightarrow> Inr (b @ bs)))"

text \<open>
  The attributes of \<^verbatim>\<open>wave.Wave_write\<close> that its methods read once it is opened on a
  file object; \<open>wfile\<close> is its \<^verbatim>\<open>_file\<close>.
\<close>

record Wave_write =
  wfile :: "target option"
  nchannels :: int
  sampwidth :: int
  framerate :: int
  nframes :: int
  nframeswritten :: int
  datawritten :: int
  datalength :: int
  headerwritten :: bool

definition Wave_write_init :: "target \<Rightarrow> Wave_write" where
  "Wave_write_init t =
     \<lparr>wfile = Some t, nchannels = 0, sampwidth = 0, framerate = 0, nframes = 0,
      nframeswritten = 0, datawritten = 0, datalength = 0, headerwritten = False\<rparr>"

subsection \<open>BaseTTS (lines 81-189)\<close>

text \<open>
  A request is the list \<^verbatim>\<open>[text, voice, format_]\<close> put on \<^verbatim>\<open>_queue\<close>; \<open>None\<close> on the queue is
  the signal to stop.  \<open>CMD\<close> is the dictionary of \<^verbatim>\<open>_cmd_init\<close>, format to command line.
  The engine is not a field: it acts on the worker only through the two callbacks.
\<close>

type_synonym request = "string \<times> string \<times> string"

record BaseTTS =
  CMD :: "(string \<times> string list) list"
  wait :: bool
  queue :: "request option list"
  sample_rate :: int
  format :: string
  popen :: "nat option"
  tts_file :: "nat option"
  wave :: "Wave_write option"
  work :: bool
  heap :: heap

definition BUFF_SIZE :: nat where
  "BUFF_SIZE = 1024"

definition SAMPLE_SIZE :: nat where
  "SAMPLE_SIZE = 2"

text \<open>
  The methods of the wave writer \<^verbatim>\<open>self._wave\<close>, as calls on the worker that holds it.
  \<^verbatim>\<open>WaveWrite\<close> replaces \<^verbatim>\<open>_ensure_header_written\<close> and \<^verbatim>\<open>_patchheader\<close> by \<^verbatim>\<open>pass\<close>.
\<close>

definition WaveWrite_ensure_header_written :: "int \<Rightarrow> 'a BaseTTS_scheme \<Rightarrow> 'a BaseTTS_scheme" where
  "WaveWrite_ensure_header_written datasize w = w"

definition WaveWrite_patchheader :: "'a BaseTTS_scheme \<Rightarrow> 'a BaseTTS_scheme" where
  "WaveWrite_patchheader w = w"

definition Wave_write_setnchannels :: "int \<Rightarrow> 'a BaseTTS_scheme \<Rightarrow> (unit, 'a BaseTTS_scheme) result" where
  "Wave_write_setnchannels n w =
     (case wave w of
        None \<Rightarrow> Raises AttributeError w
      | Some wv \<Rightarrow>
          if datawritten wv \<noteq> 0 then
            Raises (WaveError ''cannot change parameters after starting to write'') w
          else if n < 1 then Raises (WaveError ''bad # of channels'') w
          else Returns () (w\<lparr>wave := Some (wv\<lparr>nchannels := n\<rparr>)\<rparr>))"

definition Wave_write_setsampwidth :: "int \<Rightarrow> 'a BaseTTS_scheme \<Rightarrow> (unit, 'a BaseTTS_scheme) result" where
  "Wave_write_setsampwidth n w =
     (case wave w of
        None \<Rightarrow> Raises AttributeError w
      | Some wv \<Rightarrow>
          if datawritten wv \<noteq> 0 then
            Raises (WaveError ''cannot change parameters after starting to write'') w
          else if n < 1 \<or> n > 4 then Raises (WaveError ''bad sample width'') w
          else Returns () (w\<lparr>wave := Some (wv\<lparr>sampwidth := n\<rparr>)\<rparr>))"

definition Wave_write_setframerate :: "int \<Rightarrow> 'a BaseTTS_scheme \<Rightarrow> (unit, 'a BaseTTS_scheme) result" where
  "Wave_write_setframerate n w =
     (case wave w of
        None \<Rightarrow> Raises AttributeError w
      | Some wv \<Rightarrow>
          if datawritten wv \<noteq> 0 then
            Raises (WaveError ''cannot change parameters after starting to write'') w
          else if n \<le> 0 then Raises (WaveError ''bad frame rate'') w
          else Returns () (w\<lparr>wave := Some (wv\<lparr>framerate := n\<rparr>)\<rparr>))"

text \<open>
  \<^verbatim>\<open>writeframesraw\<close>: the bytes go to the file as they are (no conversion is set, and the
  host is little-endian, so nothing is swapped).
\<close>

definition Wave_write_writeframesraw :: "bytes \<Rightarrow> 'a BaseTTS_scheme \<Rightarrow> (unit, 'a BaseTTS_scheme) result" where
  "Wave_write_writeframesraw data w0 =
     (case wave w0 of
        None \<Rightarrow> Raises AttributeError w0
      | Some wv \<Rightarrow>
          let w = WaveWrite_ensure_header_written (int (length data)) w0 in
          if sampwidth wv * nchannels wv = 0 then Raises ZeroDivisionError w
          else
            (case wfile wv of
               None \<Rightarrow> Raises AttributeError w
             | Some t \<Rightarrow>
                 Returns ()
                   (w\<lparr>heap := target_write t data (heap w),
                      wave := Some (wv\<lparr>datawritten := datawritten wv + int (length data),
                                       nframeswritten := nframeswritten wv
                                         + int (length data) div (sampwidth wv * nchannels wv)\<rparr>)\<rparr>)))"

text \<open>
  \<^verbatim>\<open>_write_header(initlength)\<close>: three writes, \<^verbatim>\<open>RIFF\<close>, the packed form and format chunk,
  and the packed data length.  (The two \<^verbatim>\<open>tell()\<close> positions it notes are read by the
  original \<^verbatim>\<open>_patchheader\<close> only.)
\<close>

definition Wave_write_write_header :: "int \<Rightarrow> 'a BaseTTS_scheme \<Rightarrow> (unit, 'a BaseTTS_scheme) result" where
  "Wave_write_write_header initlength w0 =
     (case wave w0 of
        None \<Rightarrow> Raises AttributeError w0
      | Some wv0 \<Rightarrow>
          if headerwritten wv0 then Raises AssertionError w0
          else
            (case wfile wv0 of
               None \<Rightarrow> Raises AttributeError w0
             | Some t \<Rightarrow>
                 let w1 = w0\<lparr>heap := target_write t (ascii ''RIFF'') (heap w0)\<rparr> in
                 if nframes wv0 = 0 \<and> nchannels wv0 * sampwidth wv0 = 0 then
                   Raises ZeroDivisionError w1
                 else
                   let nfr = (if nframes wv0 = 0 then initlength div (nchannels wv0 * sampwidth wv0)
                              else nframes wv0);
                       dl = nfr * nchannels wv0 * sampwidth wv0;
                       wv1 = wv0\<lparr>nframes := nfr, datalength := dl\<rparr>;
                       w2 = w1\<lparr>wave := Some wv1\<rparr>
                   in
                     (case struct_pack
                             [L (36 + dl), S (ascii ''WAVE''), S (ascii ''fmt ''), L 16, H 1,
                              H (nchannels wv1), L (framerate wv1),
                              L (nchannels wv1 * framerate wv1 * sampwidth wv1),
                              H (nchannels wv1 * sampwidth wv1), H (sampwidth wv1 * 8),
                              S (ascii ''data'')] of
                        Inl e \<Rightarrow> Raises e w2
                      | Inr form \<Rightarrow>
                          let w3 = w2\<lparr>heap := target_write t form (heap w2)\<rparr> in
                          (case struct_pack [L dl] of
                             Inl e \<Rightarrow> Raises e w3
                           | Inr len \<Rightarrow>
                               Returns ()
                                 (w3\<lparr>heap := target_write t len (heap w3),
                                     wave := Some (wv1\<lparr>headerwritten := True\<rparr>)\<rparr>)))))"

text \<open>
  \<^verbatim>\<open>close\<close>: with a file still attached, the two overridden hooks and a flush; the file is
  detached on the way out.
\<close>

definition Wave_write_close :: "'a BaseTTS_scheme \<Rightarrow> (unit, 'a BaseTTS_scheme) result" where
  "Wave_write_close w0 =
     (case wave w0 of
        None \<Rightarrow> Raises AttributeError w0
      | Some wv \<Rightarrow>
          (case wfile wv of
             None \<Rightarrow> Returns () w0
           | Some t \<Rightarrow>
               let w1 = WaveWrite_ensure_header_written 0 w0;
                   w2 = (if datalength wv \<noteq> datawritten wv then WaveWrite_patchheader w1 else w1)
               in Returns () (w2\<lparr>heap := target_flush t (heap w2),
                                 wave := Some (wv\<lparr>wfile := None\<rparr>)\<rparr>)))"

definition on_file :: "nat \<Rightarrow> (FakeFile \<Rightarrow> FakeFile) \<Rightarrow> heap \<Rightarrow> heap" where
  "on_file i g h = h\<lparr>files := (files h)[i := g (files h ! i)]\<rparr>"

definition on_proc :: "nat \<Rightarrow> (Popen \<Rightarrow> Popen) \<Rightarrow> heap \<Rightarrow> heap" where
  "on_proc i g h = h\<lparr>procs := (procs h)[i := g (procs h ! i)]\<rparr>"

text \<open>\<^verbatim>\<open>_popen_create\<close> (lines 101-107): a new subprocess, on the command line of the format.\<close>

definition BaseTTS_popen_create :: "'a BaseTTS_scheme \<Rightarrow> (unit, 'a BaseTTS_scheme) result" where
  "BaseTTS_popen_create w =
     (case map_of (CMD w) (format w) of
        None \<Rightarrow> Raises TypeError w
      | Some cmd \<Rightarrow>
          Returns ()
            (w\<lparr>popen := Some (length (procs (heap w))),
               heap := (heap w)\<lparr>procs := procs (heap w) @ [Popen_init cmd]\<rparr>\<rparr>))"

text \<open>\<^verbatim>\<open>_select_target\<close> of BaseTTS (lines 109-115).\<close>

definition BaseTTS_select_target :: "'a BaseTTS_scheme \<Rightarrow> (target, 'a BaseTTS_scheme) result" where
  "BaseTTS_select_target w =
     (if format w \<in> fst ` set (CMD w) then
        and_then (BaseTTS_popen_create w) (\<lambda>_ w1.
          case popen w1 of None \<Rightarrow> Raises AttributeError w1 | Some p \<Rightarrow> Returns (Stdin p) w1)
      else
        Returns (File (length (files (heap w))))
          (w\<lparr>tts_file := Some (length (files (heap w))),
             heap := (heap w)\<lparr>files := files (heap w) @ [FakeFile_init]\<rparr>\<rparr>))"

text \<open>\<^verbatim>\<open>_wave_close\<close> (lines 130-133).\<close>

definition BaseTTS_wave_close :: "'a BaseTTS_scheme \<Rightarrow> (unit, 'a BaseTTS_scheme) result" where
  "BaseTTS_wave_close w =
     (case wave w of
        None \<Rightarrow> Returns () w
      | Some wv \<Rightarrow> and_then (Wave_write_close w) (\<lambda>_ w1. Returns () (w1\<lparr>wave := None\<rparr>)))"

text \<open>
  \<^verbatim>\<open>_start_stream\<close> (lines 117-128).  \<^verbatim>\<open>self._select_target()\<close> is the method of the
  worker's own class, BaseTTS's or ProcessTTS's; it is the argument \<open>select_target\<close>.
\<close>

definition BaseTTS_start_stream ::
  "('a BaseTTS_scheme \<Rightarrow> (target, 'a BaseTTS_scheme) result) \<Rightarrow> 'a BaseTTS_scheme
     \<Rightarrow> (unit, 'a BaseTTS_scheme) result" where
  "BaseTTS_start_stream select_target w =
     and_then (BaseTTS_wave_close w) (\<lambda>_ w1.
       let w2 = (if tts_file w1 \<noteq> None then w1\<lparr>tts_file := None\<rparr> else w1);
           w3 = (case popen w2 of
                   None \<Rightarrow> w2
                 | Some p \<Rightarrow> w2\<lparr>heap := on_proc p Popen_kill (heap w2), popen := None\<rparr>)
       in
         and_then (select_target w3) (\<lambda>t w4.
         and_then (Wave_write_setnchannels 1 (w4\<lparr>wave := Some (Wave_write_init t)\<rparr>)) (\<lambda>_ w5.
         and_then (Wave_write_setsampwidth (int SAMPLE_SIZE) w5) (\<lambda>_ w6.
         Wave_write_setframerate (sample_rate w6) w6))))"

text \<open>
  \<^verbatim>\<open>string_at(samples, n)\<close>: the \<open>n\<close> bytes at the address \<^verbatim>\<open>samples\<close>; the argument
  \<open>samples\<close> of the model is the memory from that address on.
\<close>

definition string_at :: "bytes \<Rightarrow> nat \<Rightarrow> bytes" where
  "string_at samples n = take n samples"

text \<open>\<^verbatim>\<open>_speech_callback\<close> (lines 135-137); the value is the continuation flag.\<close>

definition BaseTTS_speech_callback ::
  "bytes \<Rightarrow> nat \<Rightarrow> 'a BaseTTS_scheme \<Rightarrow> (bool, 'a BaseTTS_scheme) result" where
  "BaseTTS_speech_callback samples count w =
     and_then (Wave_write_writeframesraw (string_at samples (count * SAMPLE_SIZE)) w)
       (\<lambda>_ w1. Returns (work w1) w1)"

text \<open>\<^verbatim>\<open>_sr_callback\<close> (lines 139-146).\<close>

definition BaseTTS_sr_callback ::
  "('a BaseTTS_scheme \<Rightarrow> (target, 'a BaseTTS_scheme) result) \<Rightarrow> int \<Rightarrow> 'a BaseTTS_scheme
     \<Rightarrow> (bool, 'a BaseTTS_scheme) result" where
  "BaseTTS_sr_callback select_target rate w =
     and_then (BaseTTS_start_stream select_target (w\<lparr>sample_rate := rate\<rparr>)) (\<lambda>_ w1.
     and_then (Wave_write_write_header 0xFFFFFFF w1) (\<lambda>_ w2.
     Returns True (w2\<lparr>wait := True\<rparr>)))"

text \<open>
  \<^verbatim>\<open>say\<close> (lines 148-155) is a generator under \<^verbatim>\<open>@contextmanager\<close>: calling it runs nothing
  of its body, entering the context runs the body up to \<^verbatim>\<open>yield\<close>.  \<open>BaseTTS_say\<close> is the
  body from its start to the \<^verbatim>\<open>put_nowait\<close>, \<open>BaseTTS_say_wait\<close> the rest up to the
  \<^verbatim>\<open>yield\<close>: the worker runs between the two.  \<open>timed_out\<close> says that the 3600 seconds of
  \<^verbatim>\<open>wait\<close> passed with the event unset.
\<close>

definition BaseTTS_say :: "request \<Rightarrow> 'a BaseTTS_scheme \<Rightarrow> (unit, 'a BaseTTS_scheme) result" where
  "BaseTTS_say req w =
     (case req of (text, voice, format_) \<Rightarrow>
        if format_ \<noteq> ''wav'' \<and> format_ \<notin> fst ` set (CMD w) then
          Raises (RuntimeError (''Unsupported format: '' @ format_)) w
        else Returns () (w\<lparr>queue := queue w @ [Some (text, voice, format_)]\<rparr>))"

definition BaseTTS_say_wait :: "bool \<Rightarrow> 'a BaseTTS_scheme \<Rightarrow> (unit, 'a BaseTTS_scheme) result" where
  "BaseTTS_say_wait timed_out w =
     (if wait w \<or> timed_out then Returns () (w\<lparr>wait := False\<rparr>) else Blocks)"

text \<open>
  \<^verbatim>\<open>_generate\<close> (lines 170-182).  \<open>engine voice text\<close> stands for
  \<^verbatim>\<open>self._engine.set_voice(voice)\<close> and \<^verbatim>\<open>self._engine.generate(text)\<close>: whatever the engine
  makes of the worker through its callbacks.  \<open>in_time\<close> says whether the subprocess
  exits within the five seconds of \<^verbatim>\<open>wait(5)\<close>.
\<close>

definition BaseTTS_generate ::
  "(string \<Rightarrow> string \<Rightarrow> 'a BaseTTS_scheme \<Rightarrow> (unit, 'a BaseTTS_scheme) result) \<Rightarrow> bool
     \<Rightarrow> request \<Rightarrow> 'a BaseTTS_scheme \<Rightarrow> (unit, 'a BaseTTS_scheme) result" where
  "BaseTTS_generate engine in_time req w =
     (case req of (text, voice, format_) \<Rightarrow>
        and_then (engine voice text (w\<lparr>format := format_\<rparr>)) (\<lambda>_ w1.
        and_then (BaseTTS_wave_close w1) (\<lambda>_ w2.
          let w3 = (case tts_file w2 of
                      None \<Rightarrow> w2
                    | Some f \<Rightarrow> w2\<lparr>heap := on_file f FakeFile_end (heap w2)\<rparr>)
          in
            (case popen w3 of
               None \<Rightarrow> Returns () w3
             | Some p \<Rightarrow>
                 let w4 = w3\<lparr>heap := on_proc p (\<lambda>pr. pr\<lparr>stdin_closed := True\<rparr>) (heap w3)\<rparr> in
                 (case Popen_wait in_time (procs (heap w4) ! p) of
                    (timeout_expired, pr) \<Rightarrow>
                      if timeout_expired then Returns () w4
                      else Returns () (w4\<lparr>heap := on_proc p (\<lambda>_. pr) (heap w4)\<rparr>))))))"

subsection \<open>The engine, as the worker meets it\<close>

text \<open>
  Modelled from the spec: the synthesis engine (\<^verbatim>\<open>rhvoice_proxy\<close>, an external library)
  is not in the sources.  Section 4.4: the synchronous generate call delivers
  rate-announcement and chunk callbacks to the worker, one after the other; a callback
  returns a continuation flag, and \<open>False\<close> makes the engine stop the utterance.  A
  script lists the callbacks the engine would make for a text and a voice.
\<close>

datatype engine_call = Announce_rate int | Deliver bytes nat

fun callback ::
  "('a BaseTTS_scheme \<Rightarrow> (target, 'a BaseTTS_scheme) result) \<Rightarrow> engine_call \<Rightarrow> 'a BaseTTS_scheme
     \<Rightarrow> (bool, 'a BaseTTS_scheme) result" where
  "callback select_target (Announce_rate rate) w = BaseTTS_sr_callback select_target rate w"
| "callback select_target (Deliver samples count) w = BaseTTS_speech_callback samples count w"

fun engine_generate ::
  "('a BaseTTS_scheme \<Rightarrow> (target, 'a BaseTTS_scheme) result) \<Rightarrow> engine_call list
     \<Rightarrow> 'a BaseTTS_scheme \<Rightarrow> (unit, 'a BaseTTS_scheme) result" where
  "engine_generate select_target [] w = Returns () w"
| "engine_generate select_target (c # cs) w =
     and_then (callback select_target c w)
       (\<lambda>continue w1. if continue then engine_generate select_target cs w1 else Returns () w1)"

subsection \<open>OneTTS (lines 192-201)\<close>

text \<open>
  \<^verbatim>\<open>join\<close>, up to the wait for the thread: the flag and the stop signal.  The worker
  thread and the caller of \<^verbatim>\<open>join\<close> share the one object.
\<close>

definition OneTTS_join :: "'a BaseTTS_scheme \<Rightarrow> 'a BaseTTS_scheme" where
  "OneTTS_join w = w\<lparr>work := False, queue := queue w @ [None]\<rparr>"

subsection \<open>_InOut (lines 204-218)\<close>

text \<open>
  The relay thread reads from \<^verbatim>\<open>_in\<close>, the standard output of a subprocess or a FakeFile,
  and puts what it reads on \<^verbatim>\<open>_out\<close>, the worker's \<^verbatim>\<open>_stream\<close>.  \<open>alive\<close>: \<^verbatim>\<open>run\<close> has not
  returned yet.
\<close>

datatype source = Stdout nat | Fake nat

record InOut =
  inp :: source
  alive :: bool

definition BUFF :: nat where
  "BUFF = 1024"

definition source_read :: "source \<Rightarrow> nat \<Rightarrow> heap \<Rightarrow> (bytes \<times> heap) option" where
  "source_read src n h =
     (case src of
        Stdout p \<Rightarrow>
          (case stdout_read n (procs h ! p) of
             None \<Rightarrow> None
           | Some (chunk, pr) \<Rightarrow> Some (chunk, on_proc p (\<lambda>_. pr) h))
      | Fake f \<Rightarrow>
          (case FakeFile_read (files h ! f) of
             None \<Rightarrow> None
           | Some (chunk, g) \<Rightarrow> Some (chunk, on_file f (\<lambda>_. g) h)))"

text \<open>
  \<^verbatim>\<open>run\<close> (lines 213-218), from the head of its loop, on the heap and the stream queue.
  \<open>None\<close>: a read that waits for ever, or a loop without end.
\<close>

partial_function (option) InOut_run :: "source \<Rightarrow> heap \<Rightarrow> bytes list \<Rightarrow> (heap \<times> bytes list) option" where
  "InOut_run src h out =
     (case source_read src BUFF h of
        None \<Rightarrow> None
      | Some (chunk, h1) \<Rightarrow>
          if chunk = [] then Some (h1, out @ [chunk]) else InOut_run src h1 (out @ [chunk]))"

declare InOut_run.simps [code]

subsection \<open>ProcessTTS (lines 221-280)\<close>

text \<open>
  \<^verbatim>\<open>start()\<close> at the end of \<^verbatim>\<open>__init__\<close> gives the worker process its own copy of the object.
  The events and queues of \<^verbatim>\<open>multiprocessing\<close> (\<^verbatim>\<open>_wait\<close>, \<^verbatim>\<open>_queue\<close>, \<^verbatim>\<open>_processing\<close>,
  \<^verbatim>\<open>_reading\<close>, \<^verbatim>\<open>_stream\<close>) are shared by the two copies.  Every other attribute is
  read and written by \<^verbatim>\<open>run\<close> and the callbacks in the worker process, so the fields
  inherited from BaseTTS are the worker process's copy; \<^verbatim>\<open>join\<close> runs in the parent and
  assigns to the parent's \<^verbatim>\<open>_work\<close>, which is \<open>parent_work\<close>.
\<close>

record ProcessTTS = BaseTTS +
  processing :: bool
  reading :: bool
  stream :: "bytes list"
  in_out :: "InOut option"
  parent_work :: bool

text \<open>
  The loop of \<^verbatim>\<open>_clear_old\<close> (lines 237-241) on the chunks of \<^verbatim>\<open>_stream\<close>, oldest first.
  \<^verbatim>\<open>qsize()\<close> of a \<^verbatim>\<open>multiprocessing.Queue\<close> counts every chunk that was put and not taken.
  \<^verbatim>\<open>get_nowait()\<close> takes the oldest chunk only if it has reached the pipe of the queue and
  the read lock is free; otherwise it raises \<^verbatim>\<open>queue.Empty\<close> although \<^verbatim>\<open>qsize()\<close> is not zero
  (the feeder thread of the queue has not written the chunk yet, or a consumer waits in
  \<^verbatim>\<open>get()\<close>), and \<^verbatim>\<open>except queue.Empty: break\<close> leaves the loop.  \<open>avail\<close> is the number of
  calls of \<^verbatim>\<open>get_nowait()\<close> that find a chunk before one raises.
\<close>

fun clear_loop :: "nat \<Rightarrow> bytes list \<Rightarrow> bytes list" where
  "clear_loop avail [] = []"
| "clear_loop 0 (chunk # q) = chunk # q"
| "clear_loop (Suc avail) (chunk # q) = clear_loop avail q"

text \<open>
  \<^verbatim>\<open>_clear_old\<close> (lines 234-241).  \<^verbatim>\<open>join()\<close> returns when the relay thread has run to its
  end, and at once when it already has; what the thread puts on the queue on its way
  is there when the loop starts.
\<close>

definition ProcessTTS_clear_old :: "nat \<Rightarrow> ProcessTTS \<Rightarrow> (unit, ProcessTTS) result" where
  "ProcessTTS_clear_old avail w =
     (case in_out w of
        None \<Rightarrow> Returns () (w\<lparr>stream := clear_loop avail (stream w)\<rparr>)
      | Some t \<Rightarrow>
          if alive t then
            (case InOut_run (inp t) (heap w) (stream w) of
               None \<Rightarrow> Blocks
             | Some (h, out) \<Rightarrow>
                 Returns () (w\<lparr>heap := h, in_out := Some (t\<lparr>alive := False\<rparr>),
                               stream := clear_loop avail out\<rparr>))
          else Returns () (w\<lparr>stream := clear_loop avail (stream w)\<rparr>))"

text \<open>\<^verbatim>\<open>_select_target\<close> of ProcessTTS (lines 243-252).\<close>

definition ProcessTTS_select_target :: "nat \<Rightarrow> ProcessTTS \<Rightarrow> (target, ProcessTTS) result" where
  "ProcessTTS_select_target avail w =
     and_then (ProcessTTS_clear_old avail w) (\<lambda>_ w1.
       if format w1 \<in> fst ` set (CMD w1) then
         and_then (BaseTTS_popen_create w1) (\<lambda>_ w2.
           case popen w2 of
             None \<Rightarrow> Raises AttributeError w2
           | Some p \<Rightarrow> Returns (Stdin p) (w2\<lparr>in_out := Some \<lparr>inp = Stdout p, alive = True\<rparr>\<rparr>))
       else
         Returns (File (length (files (heap w1))))
           (w1\<lparr>tts_file := Some (length (files (heap w1))),
               heap := (heap w1)\<lparr>files := files (heap w1) @ [FakeFile_init]\<rparr>,
               in_out := Some \<lparr>inp = Fake (length (files (heap w1))), alive = True\<rparr>\<rparr>))"

text \<open>\<^verbatim>\<open>busy\<close> and \<^verbatim>\<open>set_busy\<close> (lines 254-259).\<close>

definition ProcessTTS_busy :: "ProcessTTS \<Rightarrow> bool" where
  "ProcessTTS_busy w \<longleftrightarrow> \<not> processing w \<or> reading w"

definition ProcessTTS_set_busy :: "ProcessTTS \<Rightarrow> ProcessTTS" where
  "ProcessTTS_set_busy w = w\<lparr>processing := False, reading := True\<rparr>"

text \<open>\<^verbatim>\<open>_generate\<close> of ProcessTTS (lines 261-265).\<close>

definition ProcessTTS_generate ::
  "(string \<Rightarrow> string \<Rightarrow> ProcessTTS \<Rightarrow> (unit, ProcessTTS) result) \<Rightarrow> bool \<Rightarrow> request
     \<Rightarrow> ProcessTTS \<Rightarrow> (unit, ProcessTTS) result" where
  "ProcessTTS_generate engine in_time req w =
     finally_do (BaseTTS_generate engine in_time req w) (\<lambda>w1. w1\<lparr>processing := True\<rparr>)"

text \<open>
  \<^verbatim>\<open>_iter_me\<close> of ProcessTTS (lines 267-275), a generator.  \<open>ProcessTTS_iter_next\<close> is one
  \<^verbatim>\<open>next()\<close> on it: \<open>Some chunk\<close> is the chunk it yields, \<open>None\<close> its end after the empty
  chunk, where \<^verbatim>\<open>finally\<close> clears \<^verbatim>\<open>_reading\<close>.  \<open>ProcessTTS_iter_close\<close> is the generator
  closed, by \<^verbatim>\<open>close()\<close> or by being dropped and collected, while it is suspended at
  \<^verbatim>\<open>yield\<close>: \<^verbatim>\<open>GeneratorExit\<close> is raised there and the same \<^verbatim>\<open>finally\<close> runs.  (Closing a
  generator that has not started, or has ended, runs nothing of its body.)
\<close>

definition ProcessTTS_iter_next :: "ProcessTTS \<Rightarrow> (bytes option, ProcessTTS) result" where
  "ProcessTTS_iter_next w =
     (case stream w of
        [] \<Rightarrow> Blocks
      | chunk # q \<Rightarrow>
          if chunk = [] then Returns None (w\<lparr>stream := q, reading := False\<rparr>)
          else Returns (Some chunk) (w\<lparr>stream := q\<rparr>))"

definition ProcessTTS_iter_close :: "ProcessTTS \<Rightarrow> ProcessTTS" where
  "ProcessTTS_iter_close w = w\<lparr>reading := False\<rparr>"

text \<open>\<^verbatim>\<open>join\<close> of ProcessTTS (lines 277-280), up to the wait for the process.\<close>

definition ProcessTTS_join :: "ProcessTTS \<Rightarrow> ProcessTTS" where
  "ProcessTTS_join w = w\<lparr>parent_work := False, queue := queue w @ [None]\<rparr>"

subsection \<open>MultiTTS (lines 283-310)\<close>

record MultiTTS =
  workers :: "ProcessTTS list"
  lock :: bool
  pool_work :: bool

definition TIMEOUT :: real where
  "TIMEOUT = 30"

text \<open>
  The \<^verbatim>\<open>for\<close> loop of \<^verbatim>\<open>say\<close> (lines 296-299): the position of the first worker whose
  \<^verbatim>\<open>busy()\<close> is false, if there is one.
\<close>

fun first_idle :: "ProcessTTS list \<Rightarrow> nat option" where
  "first_idle [] = None"
| "first_idle (worker # rest) =
     (if \<not> ProcessTTS_busy worker then Some 0 else map_option Suc (first_idle rest))"

text \<open>
  While \<^verbatim>\<open>say\<close> sleeps, the worker processes and the consumers of earlier requests go
  on.  The environment of a call tells, for the \<open>k\<close>-th pass of the \<^verbatim>\<open>while\<close> loop, what
  they do to the pool during \<^verbatim>\<open>time.sleep(0.05)\<close> and what \<^verbatim>\<open>time.perf_counter()\<close>
  returns after it.  The loop (lines 295-302) has no bound of its own: \<open>None\<close> is the loop
  that never ends.  The value returned is the position of the worker whose \<^verbatim>\<open>say\<close> was
  called.
\<close>

type_synonym round = "(MultiTTS \<Rightarrow> MultiTTS) \<times> real"

partial_function (option) say_loop ::
  "real \<Rightarrow> (nat \<Rightarrow> round) \<Rightarrow> nat \<Rightarrow> MultiTTS \<Rightarrow> (nat, MultiTTS) result option" where
  "say_loop end_time env k m =
     (case first_idle (workers m) of
        Some i \<Rightarrow>
          Some (Returns i (m\<lparr>workers := (workers m)[i := ProcessTTS_set_busy (workers m ! i)]\<rparr>))
      | None \<Rightarrow>
          (case env k of
             (during_sleep, now) \<Rightarrow>
               if now > end_time then Some (Raises (RuntimeError ''Still busy'') (during_sleep m))
               else say_loop end_time env (Suc k) (during_sleep m)))"

text \<open>
  \<^verbatim>\<open>say\<close> of MultiTTS (lines 291-304).  \<open>t0\<close> is the first reading of the clock.  The value
  is what \<^verbatim>\<open>worker.say(text, voice, format_, buff)\<close> returns: the context manager of that
  worker's \<^verbatim>\<open>say\<close>, with its arguments, not yet entered.  A lock that is held makes
  \<^verbatim>\<open>acquire()\<close> wait.
\<close>

definition MultiTTS_say ::
  "real \<Rightarrow> (nat \<Rightarrow> round) \<Rightarrow> request \<Rightarrow> MultiTTS \<Rightarrow> (nat \<times> request, MultiTTS) result" where
  "MultiTTS_say t0 env req m =
     (if lock m then Blocks
      else
        finally_do
          (case say_loop (t0 + TIMEOUT) env 0 (m\<lparr>lock := True\<rparr>) of
             None \<Rightarrow> Blocks
           | Some r \<Rightarrow> and_then r (\<lambda>i m1. Returns (i, req) m1))
          (\<lambda>m1. m1\<lparr>lock := False\<rparr>))"

text \<open>
  Entering the context manager that \<^verbatim>\<open>say\<close> returned (\<^verbatim>\<open>with tts.say(...) as read\<close>) runs
  the body of the worker's \<^verbatim>\<open>say\<close> in the caller's thread.
\<close>

definition enter :: "nat \<times> request \<Rightarrow> MultiTTS \<Rightarrow> (unit, MultiTTS) result" where
  "enter cm m =
     (case cm of (i, req) \<Rightarrow>
        (case BaseTTS_say req (workers m ! i) of
           Blocks \<Rightarrow> Blocks
         | Raises e w \<Rightarrow> Raises e (m\<lparr>workers := (workers m)[i := w]\<rparr>)
         | Returns u w \<Rightarrow> Returns u (m\<lparr>workers := (workers m)[i := w]\<rparr>)))"

subsection \<open>Construction, and reading an outcome\<close>

text \<open>\<^verbatim>\<open>__init__\<close> of BaseTTS (lines 85-99), of ProcessTTS (lines 222-232), of MultiTTS (lines 286-289).\<close>

definition BaseTTS_init :: "(string \<times> string list) list \<Rightarrow> BaseTTS" where
  "BaseTTS_init cmd =
     \<lparr>CMD = cmd, wait = False, queue = [], sample_rate = 24000, format = ''wav'',
      popen = None, tts_file = None, wave = None, work = True,
      heap = \<lparr>procs = [], files = []\<rparr>\<rparr>"

definition ProcessTTS_init :: "(string \<times> string list) list \<Rightarrow> ProcessTTS" where
  "ProcessTTS_init cmd =
     \<lparr>CMD = cmd, wait = False, queue = [], sample_rate = 24000, format = ''wav'',
      popen = None, tts_file = None, wave = None, work = True,
      heap = \<lparr>procs = [], files = []\<rparr>,
      processing = True, reading = False, stream = [], in_out = None, parent_work = True\<rparr>"

definition MultiTTS_init :: "nat \<Rightarrow> (string \<times> string list) list \<Rightarrow> MultiTTS" where
  "MultiTTS_init count cmd =
     \<lparr>workers = replicate count (ProcessTTS_init cmd), lock = False, pool_work = True\<rparr>"

text \<open>An engine that makes the calls of one script, whatever the voice and the text.\<close>

definition scripted ::
  "('a BaseTTS_scheme \<Rightarrow> (target, 'a BaseTTS_scheme) result) \<Rightarrow> engine_call list \<Rightarrow> string \<Rightarrow> string
     \<Rightarrow> 'a BaseTTS_scheme \<Rightarrow> (unit, 'a BaseTTS_scheme) result" where
  "scripted select_target script voice text w = engine_generate select_target script w"

text \<open>The value a call returned and the state it left, when it returned or raised.\<close>

fun returned :: "('a, 's) result \<Rightarrow> 'a option" where
  "returned (Returns a s) = Some a"
| "returned (Raises e s) = None"
| "returned Blocks = None"

fun raised :: "('a, 's) result \<Rightarrow> error option" where
  "raised (Raises e s) = Some e"
| "raised (Returns a s) = None"
| "raised Blocks = None"

fun state_of :: "('a, 's) result \<Rightarrow> 's option" where
  "state_of (Returns a s) = Some s"
| "state_of (Raises e s) = Some s"
| "state_of Blocks = None"

subsection \<open>Notions for the properties\<close>

text \<open>\<open>returns r P\<close>: the call returned, with a value and a state that satisfy \<open>P\<close>.\<close>

definition returns :: "('a, 's) result \<Rightarrow> ('a \<Rightarrow> 's \<Rightarrow> bool) \<Rightarrow> bool" where
  "returns r P = (case r of Returns a s \<Rightarrow> P a s | Raises e s \<Rightarrow> False | Blocks \<Rightarrow> False)"

text \<open>
  The two halves of \<^verbatim>\<open>_start_stream\<close> around the call of \<^verbatim>\<open>_select_target\<close>: what is torn
  down before it (lines 118-123; closing the wave writer only detaches it), and the
  three setters on the new wave writer after it (lines 125-128).
\<close>

definition cleanup :: "'a BaseTTS_scheme \<Rightarrow> 'a BaseTTS_scheme" where
  "cleanup w =
     (case popen w of
        None \<Rightarrow> w\<lparr>wave := None, tts_file := None\<rparr>
      | Some p \<Rightarrow>
          w\<lparr>wave := None, tts_file := None, heap := on_proc p Popen_kill (heap w), popen := None\<rparr>)"

definition configure :: "target \<Rightarrow> 'a BaseTTS_scheme \<Rightarrow> (unit, 'a BaseTTS_scheme) result" where
  "configure t w =
     (if sample_rate w \<le> 0 then
        Raises (WaveError ''bad frame rate'')
          (w\<lparr>wave := Some ((Wave_write_init t)\<lparr>nchannels := 1, sampwidth := 2\<rparr>)\<rparr>)
      else
        Returns ()
          (w\<lparr>wave := Some ((Wave_write_init t)\<lparr>nchannels := 1, sampwidth := 2,
                                               framerate := sample_rate w\<rparr>)\<rparr>))"

text \<open>
  The header of a one-channel, two-byte WAVE stream of the given rate whose declared data
  length is \<open>0xFFFFFFE\<close>, the whole frames in \<open>0xFFFFFFF\<close> bytes, in the three chunks in which
  it is written: the tag, the form and format chunk (36 bytes), and the data length.
\<close>

definition header_chunks :: "int \<Rightarrow> bytes list" where
  "header_chunks rate =
     [ascii ''RIFF'',
      le_bytes 4 (36 + 0xFFFFFFE) @ ascii ''WAVE'' @ ascii ''fmt '' @ le_bytes 4 16 @ le_bytes 2 1
        @ le_bytes 2 1 @ le_bytes 4 rate @ le_bytes 4 (2 * rate) @ le_bytes 2 2 @ le_bytes 2 16
        @ ascii ''data'',
      le_bytes 4 0xFFFFFFE]"

text \<open>
  \<open>streaming n q w\<close>: the worker writes an utterance to the FakeFile \<open>n\<close>, whose queue
  holds \<open>q\<close>: the file is the worker's \<^verbatim>\<open>_file\<close> and the wave writer's, it is open, and no
  subprocess is attached.
\<close>

definition streaming :: "nat \<Rightarrow> bytes list \<Rightarrow> 'a BaseTTS_scheme \<Rightarrow> bool" where
  "streaming n q w \<longleftrightarrow>
     tts_file w = Some n \<and> popen w = None \<and> n < length (files (heap w)) \<and>
     files (heap w) ! n = \<lparr>items = q, open_flag = True\<rparr> \<and>
     (case wave w of
        None \<Rightarrow> False
      | Some wv \<Rightarrow> wfile wv = Some (File n) \<and> nchannels wv = 1 \<and> sampwidth wv = 2)"

text \<open>The bytes of the chunk callbacks of a script, in order, and the calls made while \<^verbatim>\<open>_work\<close> is as given.\<close>

fun pcm :: "engine_call \<Rightarrow> bytes" where
  "pcm (Deliver samples count) = string_at samples (count * SAMPLE_SIZE)"
| "pcm (Announce_rate rate) = []"

text \<open>
  The chunk callbacks of a script for the given samples, the calls of a script that the
  engine makes when the continuation flag it gets back is \<open>continue\<close> (all of them, or
  the first only), and the chunks their bytes add to a FakeFile (\<^verbatim>\<open>write\<close> drops an empty
  one).
\<close>

definition deliveries :: "(bytes \<times> nat) list \<Rightarrow> engine_call list" where
  "deliveries chunks = map (\<lambda>(samples, count). Deliver samples count) chunks"

definition made :: "bool \<Rightarrow> engine_call list \<Rightarrow> engine_call list" where
  "made continue script = (if continue then script else take 1 script)"

definition chunks_of :: "engine_call list \<Rightarrow> bytes list" where
  "chunks_of script = filter (\<lambda>d. d \<noteq> []) (map pcm script)"

text \<open>\<open>preserves f r s\<close>: the call with outcome \<open>r\<close> from state \<open>s\<close> left \<open>f\<close> of the state as it was.\<close>

definition preserves :: "('s \<Rightarrow> 'b) \<Rightarrow> ('a, 's) result \<Rightarrow> 's \<Rightarrow> bool" where
  "preserves f r s =
     (case r of Blocks \<Rightarrow> True | Raises e s' \<Rightarrow> f s' = f s | Returns a s' \<Rightarrow> f s' = f s)"

text \<open>
  One pass of the loop of \<^verbatim>\<open>_InOut.run\<close> (lines 215-218) by the relay thread of a process
  worker; a thread that has returned, or none, does nothing.
\<close>

definition InOut_pass :: "ProcessTTS \<Rightarrow> (unit, ProcessTTS) result" where
  "InOut_pass w =
     (case in_out w of
        None \<Rightarrow> Returns () w
      | Some t \<Rightarrow>
          if \<not> alive t then Returns () w
          else
            (case source_read (inp t) BUFF (heap w) of
               None \<Rightarrow> Blocks
             | Some (chunk, h) \<Rightarrow>
                 Returns ()
                   (w\<lparr>heap := h, stream := stream w @ [chunk],
                      in_out := Some (t\<lparr>alive := (chunk \<noteq> [])\<rparr>)\<rparr>)))"

text \<open>
  \<^verbatim>\<open>_generate\<close> from the return of the engine to its end (lines 174-182).
\<close>

definition BaseTTS_generate_end :: "bool \<Rightarrow> 'a BaseTTS_scheme \<Rightarrow> (unit, 'a BaseTTS_scheme) result" where
  "BaseTTS_generate_end in_time w1 =
     and_then (BaseTTS_wave_close w1) (\<lambda>_ w2.
       let w3 = (case tts_file w2 of
                   None \<Rightarrow> w2
                 | Some f \<Rightarrow> w2\<lparr>heap := on_file f FakeFile_end (heap w2)\<rparr>)
       in
         (case popen w3 of
            None \<Rightarrow> Returns () w3
          | Some p \<Rightarrow>
              let w4 = w3\<lparr>heap := on_proc p (\<lambda>pr. pr\<lparr>stdin_closed := True\<rparr>) (heap w3)\<rparr> in
              (case Popen_wait in_time (procs (heap w4) ! p) of
                 (timeout_expired, pr) \<Rightarrow>
                   if timeout_expired then Returns () w4
                   else Returns () (w4\<lparr>heap := on_proc p (\<lambda>_. pr) (heap w4)\<rparr>))))"

text \<open>
  \<^verbatim>\<open>_write_header\<close> of the wave writer in its three writes: the tag (with the assertion
  before it), the form and format chunk (with the frame count and the data length that
  are computed before it), and the data length (with the flag that is set after it).
\<close>

definition Wave_write_header_tag :: "'a BaseTTS_scheme \<Rightarrow> (unit, 'a BaseTTS_scheme) result" where
  "Wave_write_header_tag w0 =
     (case wave w0 of
        None \<Rightarrow> Raises AttributeError w0
      | Some wv0 \<Rightarrow>
          if headerwritten wv0 then Raises AssertionError w0
          else
            (case wfile wv0 of
               None \<Rightarrow> Raises AttributeError w0
             | Some t \<Rightarrow> Returns () (w0\<lparr>heap := target_write t (ascii ''RIFF'') (heap w0)\<rparr>)))"

definition Wave_write_header_form :: "int \<Rightarrow> 'a BaseTTS_scheme \<Rightarrow> (unit, 'a BaseTTS_scheme) result" where
  "Wave_write_header_form initlength w1 =
     (case wave w1 of
        None \<Rightarrow> Raises AttributeError w1
      | Some wv0 \<Rightarrow>
          (case wfile wv0 of
             None \<Rightarrow> Raises AttributeError w1
           | Some t \<Rightarrow>
               if nframes wv0 = 0 \<and> nchannels wv0 * sampwidth wv0 = 0 then
                 Raises ZeroDivisionError w1
               else
                 let nfr = (if nframes wv0 = 0 then initlength div (nchannels wv0 * sampwidth wv0)
                            else nframes wv0);
                     dl = nfr * nchannels wv0 * sampwidth wv0;
                     wv1 = wv0\<lparr>nframes := nfr, datalength := dl\<rparr>;
                     w2 = w1\<lparr>wave := Some wv1\<rparr>
                 in
                   (case struct_pack
                           [L (36 + dl), S (ascii ''WAVE''), S (ascii ''fmt ''), L 16, H 1,
                            H (nchannels wv1), L (framerate wv1),
                            L (nchannels wv1 * framerate wv1 * sampwidth wv1),
                            H (nchannels wv1 * sampwidth wv1), H (sampwidth wv1 * 8),
                            S (ascii ''data'')] of
                      Inl e \<Rightarrow> Raises e w2
                    | Inr form \<Rightarrow> Returns () (w2\<lparr>heap := target_write t form (heap w2)\<rparr>))))"

definition Wave_write_header_length :: "'a BaseTTS_scheme \<Rightarrow> (unit, 'a BaseTTS_scheme) result" where
  "Wave_write_header_length w3 =
     (case wave w3 of
        None \<Rightarrow> Raises AttributeError w3
      | Some wv1 \<Rightarrow>
          (case wfile wv1 of
             None \<Rightarrow> Raises AttributeError w3
           | Some t \<Rightarrow>
               (case struct_pack [L (datalength wv1)] of
                  Inl e \<Rightarrow> Raises e w3
                | Inr len \<Rightarrow>
                    Returns ()
                      (w3\<lparr>heap := target_write t len (heap w3),
                          wave := Some (wv1\<lparr>headerwritten := True\<rparr>)\<rparr>))))"

text \<open>
  An exception raised while the worker process is in \<^verbatim>\<open>_generate\<close> leaves it through its
  \<^verbatim>\<open>finally\<close> (lines 264-265), which sets \<^verbatim>\<open>_processing\<close>.
\<close>

definition in_generate :: "('a, ProcessTTS) result \<Rightarrow> (bytes option option, ProcessTTS) result" where
  "in_generate r =
     (case r of
        Blocks \<Rightarrow> Blocks
      | Raises e w \<Rightarrow> Raises e (w\<lparr>processing := True\<rparr>)
      | Returns a w \<Rightarrow> Returns None w)"

text \<open>
  What the worker process, the relay thread and the consumer of a process worker do,
  one step at a time.  The calls of the worker process are cut at the callbacks of the
  engine and, within the rate callback, at the writes of the header, so that the relay
  thread and the consumer run between any two writes to the stream of a request.
  \<^item> The worker process serves a request: \<open>Begin\<close> takes it from \<^verbatim>\<open>_queue\<close> in \<^verbatim>\<open>run\<close> and
    enters \<^verbatim>\<open>_generate\<close> (lines 186-189, 171; on the stop signal \<^verbatim>\<open>run\<close> returns); \<open>Announce\<close>
    is the rate callback up to the end of \<^verbatim>\<open>_start_stream\<close> (lines 140-142), that is the
    end of the previous stream, the join of its relay thread, which runs to its end
    meanwhile, the loop of \<^verbatim>\<open>get_nowait()\<close> with the number of chunks it finds, and the new
    target with its relay thread; \<open>Header_tag\<close>, \<open>Header_form\<close> and \<open>Header_length\<close> are the
    three writes of \<^verbatim>\<open>_write_header\<close> (line 144), the last with lines 145-146; \<open>Chunk\<close> is a
    chunk callback; \<open>Finish\<close> is \<^verbatim>\<open>_generate\<close> after the engine has returned, and its
    \<^verbatim>\<open>finally\<close>.
  \<^item> \<open>Relay\<close> is a pass of the loop of the relay thread.
  \<^item> The consumer runs the body of \<^verbatim>\<open>say\<close> up to the wait (\<open>Say\<close>) and from the wait to the
    \<^verbatim>\<open>yield\<close> (\<open>Say_wait\<close>), calls \<^verbatim>\<open>next()\<close> on the iterator (\<open>Next\<close>), or closes or drops
    the iterator while it is suspended (\<open>Close\<close>).
  A step gives what the iterator gave, if it was asked.  A schedule that asks for a step
  where it would wait has no run (\<open>None\<close>); after an exception the others go on.
\<close>

datatype event =
    Begin
  | Announce nat int
  | Header_tag
  | Header_form
  | Header_length
  | Chunk bytes nat
  | Finish bool
  | Relay
  | Say request
  | Say_wait bool
  | Next
  | Close

fun step :: "event \<Rightarrow> ProcessTTS \<Rightarrow> (bytes option option, ProcessTTS) result" where
  "step Begin w =
     (case queue w of
        [] \<Rightarrow> Blocks
      | None # q \<Rightarrow> Returns None (w\<lparr>queue := q\<rparr>)
      | Some (text, voice, format_) # q \<Rightarrow> Returns None (w\<lparr>queue := q, format := format_\<rparr>))"
| "step (Announce avail rate) w =
     in_generate (BaseTTS_start_stream (ProcessTTS_select_target avail) (w\<lparr>sample_rate := rate\<rparr>))"
| "step Header_tag w = in_generate (Wave_write_header_tag w)"
| "step Header_form w = in_generate (Wave_write_header_form 0xFFFFFFF w)"
| "step Header_length w =
     in_generate (and_then (Wave_write_header_length w) (\<lambda>_ w1. Returns True (w1\<lparr>wait := True\<rparr>)))"
| "step (Chunk samples count) w = in_generate (BaseTTS_speech_callback samples count w)"
| "step (Finish in_time) w =
     and_then (finally_do (BaseTTS_generate_end in_time w) (\<lambda>w1. w1\<lparr>processing := True\<rparr>))
       (\<lambda>_ w'. Returns None w')"
| "step Relay w = and_then (InOut_pass w) (\<lambda>_ w'. Returns None w')"
| "step (Say req) w = and_then (BaseTTS_say req w) (\<lambda>_ w'. Returns None w')"
| "step (Say_wait timed_out) w = and_then (BaseTTS_say_wait timed_out w) (\<lambda>_ w'. Returns None w')"
| "step Next w = and_then (ProcessTTS_iter_next w) (\<lambda>x w'. Returns (Some x) w')"
| "step Close w = Returns None (ProcessTTS_iter_close w)"

fun run_events :: "event list \<Rightarrow> ProcessTTS \<Rightarrow> (bytes option list \<times> ProcessTTS) option" where
  "run_events [] w = Some ([], w)"
| "run_events (e # es) w =
     (case step e w of
        Blocks \<Rightarrow> None
      | Raises err w' \<Rightarrow> run_events es w'
      | Returns x w' \<Rightarrow>
          (case run_events es w' of
             None \<Rightarrow> None
           | Some (outs, w'') \<Rightarrow> Some ((case x of None \<Rightarrow> [] | Some y \<Rightarrow> [y]) @ outs, w'')))"

text \<open>
  The steps in which the worker process makes a callback of the engine, and the steps
  of a whole \<^verbatim>\<open>_generate\<close> in which the engine makes the callbacks \<open>calls\<close>.
\<close>

fun steps_of :: "nat \<Rightarrow> engine_call \<Rightarrow> event list" where
  "steps_of avail (Announce_rate rate) = [Announce avail rate, Header_tag, Header_form, Header_length]"
| "steps_of avail (Deliver samples count) = [Chunk samples count]"

definition generate_steps :: "nat \<Rightarrow> engine_call list \<Rightarrow> bool \<Rightarrow> event list" where
  "generate_steps avail calls in_time =
     Begin # concat (map (steps_of avail) calls) @ [Finish in_time]"

text \<open>
  \<open>pool_at env k m\<close>: the pool as the \<open>k\<close>-th pass of the loop of \<^verbatim>\<open>say\<close> finds it, when the
  call started from \<open>m\<close>: what the environment did during the sleeps before that pass.
\<close>

fun pool_at :: "(nat \<Rightarrow> round) \<Rightarrow> nat \<Rightarrow> MultiTTS \<Rightarrow> MultiTTS" where
  "pool_at env 0 m = m"
| "pool_at env (Suc k) m = fst (env k) (pool_at env k m)"

section \<open>Properties of FakeFile\<close>

lemma read_loop_eq: "read_loop q data opn = (data @ concat q, opn \<and> [] \<notin> set q)"
  by (induction q arbitrary: data opn) auto

text \<open>What one \<^verbatim>\<open>read\<close> does in each state of the object.\<close>

lemma read_closed: "\<not> open_flag f \<Longrightarrow> FakeFile_read f = Some ([], f)"
  by (simp add: FakeFile_read_def)

lemma read_open_data:
  assumes "open_flag f" and "[] \<notin> set (items f)" and "items f \<noteq> []"
  shows "FakeFile_read f = Some (concat (items f), \<lparr>items = [], open_flag = True\<rparr>)"
proof (cases "items f")
  case Nil
  with assms show ?thesis by simp
next
  case (Cons d q)
  with assms show ?thesis
    by (cases q) (auto simp: FakeFile_read_def read_loop_eq)
qed

lemma read_open_empty:
  assumes "open_flag f" and "items f = []"
  shows "FakeFile_read f = None"
  using assms by (simp add: FakeFile_read_def)

lemma read_open_ended:
  assumes "open_flag f" and "items f = q @ [[]]"
  shows "FakeFile_read f = Some (concat q, \<lparr>items = [], open_flag = False\<rparr>)"
proof (cases q)
  case Nil
  with assms show ?thesis by (simp add: FakeFile_read_def)
next
  case (Cons d q')
  with assms show ?thesis by (simp add: FakeFile_read_def read_loop_eq)
qed

lemma run_closed:
  "\<not> open_flag f \<Longrightarrow> producer ops = [] \<Longrightarrow> run ops f = Some (replicate (length ops) [], f)"
proof (induction ops)
  case Nil
  then show ?case by simp
next
  case (Cons x ops)
  then show ?case
    by (cases x) (simp_all add: producer_def read_closed)
qed

lemma delivered_Cons:
  "d \<noteq> [] \<Longrightarrow> delivered rs f bs \<Longrightarrow> delivered (d # rs) f (d @ bs)"
  by (auto simp: delivered_def split: option.splits)

lemma delivered_ended:
  assumes "open_flag f" and "items f = q @ [[]]" and "[] \<notin> set q"
    and "producer ops = []" and "run ops f = Some (rs, f')"
  shows "delivered rs f' (concat q)"
proof (cases ops)
  case Nil
  with assms show ?thesis
    by (simp add: delivered_def read_open_ended read_closed)
next
  case (Cons x ops')
  with assms(4) have x: "x = Read" and ops': "producer ops' = []"
    by (auto simp: producer_def split: if_splits)
  let ?g = "\<lparr>items = [], open_flag = False\<rparr>"
  have "run ops' ?g = Some (replicate (length ops') [], ?g)"
    using ops' by (simp add: run_closed)
  with assms Cons x have rs: "rs = concat q # replicate (length ops') []" and f': "f' = ?g"
    by (simp_all add: read_open_ended)
  have e: "set (replicate (length ops') ([] :: bytes)) \<subseteq> {[]}" by auto
  show ?thesis
    unfolding rs f' using e by (cases "concat q = []") (simp_all add: delivered_def read_closed)
qed

lemma delivered_run:
  assumes "producer ops = map Write ws @ [End]" and "[] \<notin> set ws"
    and "open_flag f" and "[] \<notin> set (items f)" and "run ops f = Some (rs, f')"
  shows "delivered rs f' (concat (items f) @ concat ws)"
  using assms
proof (induction ops arbitrary: ws f rs)
  case Nil
  then show ?case by (simp add: producer_def)
next
  case (Cons x ops)
  show ?case
  proof (cases x)
    case (Write d)
    with Cons.prems(1) obtain ws' where ws: "ws = d # ws'" and p: "producer ops = map Write ws' @ [End]"
      by (cases ws) (auto simp: producer_def)
    from ws Cons.prems(2) have d: "d \<noteq> []" and ws': "[] \<notin> set ws'" by auto
    have "delivered rs f' (concat (items (FakeFile_write d f)) @ concat ws')"
      using Cons.prems(3,4,5) Write d
      by (intro Cons.IH [OF p ws']) (simp_all add: FakeFile_write_def)
    then show ?thesis using d ws by (simp add: FakeFile_write_def)
  next
    case End
    with Cons.prems(1) have ws: "ws = []" and p: "producer ops = []"
      by (cases ws; simp add: producer_def)+
    have "delivered rs f' (concat (items f))"
      using Cons.prems(3,4,5) End p
      by (intro delivered_ended [of "FakeFile_end f" "items f" ops]) (simp_all add: FakeFile_end_def)
    then show ?thesis using ws by simp
  next
    case Read
    with Cons.prems(1) have p: "producer ops = map Write ws @ [End]"
      by (simp add: producer_def)
    show ?thesis
    proof (cases "items f = []")
      case True
      with Cons.prems(3,5) Read show ?thesis by (simp add: read_open_empty)
    next
      case False
      let ?g = "\<lparr>items = [], open_flag = True\<rparr>"
      from False Cons.prems(4) have ne: "concat (items f) \<noteq> []" by (cases "items f") auto
      from False Cons.prems(3,4,5) Read obtain rs' where
        rs: "rs = concat (items f) # rs'" and r: "run ops ?g = Some (rs', f')"
        by (auto simp: read_open_data split: option.splits)
      have "delivered rs' f' (concat (items ?g) @ concat ws)"
        using r by (intro Cons.IH [OF p Cons.prems(2)]) simp_all
      then show ?thesis using ne rs by (simp add: delivered_Cons)
    qed
  qed
qed

text \<open>
  C1.  A producer writes the non-empty chunks \<open>ws\<close> and then calls \<^verbatim>\<open>end()\<close> once, on a fresh
  FakeFile, while a consumer reads; \<open>rs\<close> are the chunks its reads returned.  Then the
  non-empty chunks of \<open>rs\<close> come first and only empty chunks follow the first empty one;
  the bytes read are a prefix of the bytes written, and exactly the bytes written once an
  empty chunk has been returned, at which point the object is closed.  After the schedule
  the next read does not block: it returns the bytes still missing (the empty chunk when
  none is missing) and closes the object, and a read of the closed object returns the empty
  chunk at once and leaves the object as it is.
\<close>

theorem FakeFile_reads_deliver_writes:
  assumes "producer ops = map Write ws @ [End]"
    and "[] \<notin> set ws"
    and "run ops FakeFile_init = Some (rs, f)"
  shows "set (dropWhile (\<lambda>r. r \<noteq> []) rs) \<subseteq> {[]} \<and>
         prefix (concat rs) (concat ws) \<and>
         ([] \<in> set rs \<longrightarrow> concat rs = concat ws \<and> \<not> open_flag f) \<and>
         (\<exists>r1 f1. FakeFile_read f = Some (r1, f1) \<and> concat rs @ r1 = concat ws \<and>
            \<not> open_flag f1 \<and> FakeFile_read f1 = Some ([], f1))"
proof -
  have "delivered rs f (concat (items FakeFile_init) @ concat ws)"
    using assms by (intro delivered_run) (simp_all add: FakeFile_init_def)
  then show ?thesis
    by (auto simp: delivered_def FakeFile_init_def split: option.splits)
qed

theorem FakeFile_reads_deliver_writes_witness:
  "producer [Write [1], Read, Write [2, 3], Write [4], End, Read, Read]
     = map Write [[1], [2, 3], [4]] @ [End] \<and>
   [] \<notin> set [[1], [2, 3], [4 :: 8 word]] \<and>
   run [Write [1], Read, Write [2, 3], Write [4], End, Read, Read] FakeFile_init
     = Some ([[1], [2, 3, 4], []], \<lparr>items = [], open_flag = False\<rparr>) \<and>
   concat [[1], [2, 3, 4], []] = concat [[1], [2, 3], [4 :: 8 word]] \<and>
   FakeFile_read \<lparr>items = [], open_flag = False\<rparr>
     = Some ([], \<lparr>items = [], open_flag = False\<rparr>)"
proof -
  have p: "producer [Write [1], Read, Write [2, 3], Write [4], End, Read, Read]
      = map Write [[1], [2, 3], [4]] @ [End]"
    by (simp add: producer_def)
  have n: "[] \<notin> set [[1], [2, 3], [4 :: 8 word]]" by simp
  have r: "run [Write [1], Read, Write [2, 3], Write [4], End, Read, Read] FakeFile_init
      = Some ([[1], [2, 3, 4], []], \<lparr>items = [], open_flag = False\<rparr>)"
    by (simp add: FakeFile_init_def FakeFile_write_def FakeFile_end_def FakeFile_read_def)
  show ?thesis
    using FakeFile_reads_deliver_writes [OF p n r] p r by (auto simp: FakeFile_read_def)
qed

text \<open>
  C2, as stated, fails.  \<^verbatim>\<open>end()\<close> tests \<^verbatim>\<open>_open\<close>, which only \<^verbatim>\<open>read\<close> clears (when it takes
  a terminal sentinel out of the queue); \<^verbatim>\<open>end()\<close> itself leaves it set.  Two calls on a
  fresh FakeFile enqueue two sentinels, and the second call changes the queue.
\<close>

theorem FakeFile_end_twice_counterexample:
  "items (FakeFile_end (FakeFile_end FakeFile_init)) = [[], []] \<and>
   items (FakeFile_end (FakeFile_end FakeFile_init)) \<noteq> items (FakeFile_end FakeFile_init)"
  by (simp add: FakeFile_end_def FakeFile_init_def)

text \<open>
  C2, amended.  \<^verbatim>\<open>end()\<close> enqueues nothing exactly when the object is closed, that is once
  a read has consumed a sentinel: a second \<^verbatim>\<open>end()\<close> after the consumer read the first
  sentinel is a no-op.  On an object that is still open every call appends one sentinel,
  so two calls append two; the next \<^verbatim>\<open>read\<close> then takes both out at once with the pending
  chunks, closes the object and leaves the queue empty.
\<close>

theorem FakeFile_end_twice:
  "(\<not> open_flag f \<longrightarrow> FakeFile_end f = f) \<and>
   (open_flag f \<longrightarrow>
      FakeFile_end (FakeFile_end f) = f\<lparr>items := items f @ [[], []]\<rparr> \<and>
      FakeFile_read (FakeFile_end (FakeFile_end f))
        = Some (concat (items f), \<lparr>items = [], open_flag = False\<rparr>)) \<and>
   (open_flag f \<and> items f = [] \<longrightarrow>
      (\<exists>g. FakeFile_read (FakeFile_end f) = Some ([], g) \<and> FakeFile_end g = g))"
  by (auto simp: FakeFile_end_def FakeFile_read_def read_loop_eq)

theorem FakeFile_end_twice_witness:
  "\<not> open_flag \<lparr>items = [[7]], open_flag = False\<rparr> \<and>
   FakeFile_end \<lparr>items = [[7]], open_flag = False\<rparr> = \<lparr>items = [[7]], open_flag = False\<rparr> \<and>
   open_flag FakeFile_init \<and> items FakeFile_init = [] \<and>
   FakeFile_end (FakeFile_end FakeFile_init) = FakeFile_init\<lparr>items := [[], []]\<rparr> \<and>
   FakeFile_read (FakeFile_end (FakeFile_end FakeFile_init))
     = Some ([], \<lparr>items = [], open_flag = False\<rparr>)"
  using FakeFile_end_twice [of "\<lparr>items = [[7]], open_flag = False\<rparr>"]
    FakeFile_end_twice [of FakeFile_init]
  by (simp add: FakeFile_init_def FakeFile_end_def FakeFile_read_def)

text \<open>
  C9.  \<^verbatim>\<open>write\<close> of the empty chunk returns the object as it was, queue and \<^verbatim>\<open>_open\<close>
  included, in every state.  No \<^verbatim>\<open>write\<close> at all adds an empty chunk to the queue or
  touches \<^verbatim>\<open>_open\<close>: the number of sentinels in the queue is the same after it, whereas
  \<^verbatim>\<open>end()\<close> on an open object adds one.
\<close>

theorem FakeFile_write_empty:
  "FakeFile_write [] f = f \<and>
   count_list (items (FakeFile_write d f)) [] = count_list (items f) [] \<and>
   open_flag (FakeFile_write d f) = open_flag f \<and>
   count_list (items (FakeFile_end f)) []
     = (if open_flag f then Suc (count_list (items f) []) else count_list (items f) [])"
  by (simp add: FakeFile_write_def FakeFile_end_def)

section \<open>Properties of the workers\<close>

lemma target_flush_id: "target_flush t h = h"
  by (cases t) (simp_all add: FakeFile_flush_def)

lemma wave_close_eq: "BaseTTS_wave_close w = Returns () (w\<lparr>wave := None\<rparr>)"
proof (cases "wave w")
  case None
  then show ?thesis by (simp add: BaseTTS_wave_close_def)
next
  case (Some wv)
  then show ?thesis
    by (cases "wfile wv")
      (simp_all add: BaseTTS_wave_close_def Wave_write_close_def and_then_def target_flush_id
        WaveWrite_ensure_header_written_def WaveWrite_patchheader_def Let_def)
qed

lemma map_of_in_keys: "k \<in> fst ` set xs \<Longrightarrow> \<exists>v. map_of xs k = Some v"
  by (induction xs) auto

lemma and_then_simps:
  "and_then (Returns a s) k = k a s"
  "and_then (Raises e s) k = Raises e s"
  "and_then Blocks k = Blocks"
  by (simp_all add: and_then_def)

lemma configure_eq:
  "and_then (Wave_write_setnchannels 1 (w4\<lparr>wave := Some (Wave_write_init t)\<rparr>)) (\<lambda>_ w5.
         and_then (Wave_write_setsampwidth (int SAMPLE_SIZE) w5) (\<lambda>_ w6.
         Wave_write_setframerate (sample_rate w6) w6)) = configure t w4"
    by (simp add: Wave_write_setnchannels_def Wave_write_setsampwidth_def Wave_write_setframerate_def
        and_then_def Wave_write_init_def SAMPLE_SIZE_def configure_def)

lemma drop_file_eq: "(if tts_file v \<noteq> None then v\<lparr>tts_file := None\<rparr> else v) = v\<lparr>tts_file := None\<rparr>"
  by simp

lemma start_stream_eq:
  "BaseTTS_start_stream sel w = and_then (sel (cleanup w)) configure"
  unfolding BaseTTS_start_stream_def wave_close_eq and_then_simps drop_file_eq
  by (cases "popen w") (simp_all add: configure_eq cleanup_def Let_def)

lemma generate_with_popen:
  assumes "engine voice utt (w\<lparr>format := fmt\<rparr>) = Returns () w1"
    and "popen w1 = Some p" and "p < length (procs (heap w1))"
  shows "BaseTTS_generate engine in_time (utt, voice, fmt) w =
     Returns ()
       ((case tts_file w1 of
           None \<Rightarrow> w1\<lparr>wave := None\<rparr>
         | Some f \<Rightarrow> w1\<lparr>wave := None, heap := on_file f FakeFile_end (heap w1)\<rparr>)
        \<lparr>heap := on_proc p (\<lambda>pr. snd (Popen_wait in_time (pr\<lparr>stdin_closed := True\<rparr>)))
           (case tts_file w1 of None \<Rightarrow> heap w1 | Some f \<Rightarrow> on_file f FakeFile_end (heap w1))\<rparr>)"
  using assms
  by (cases "tts_file w1")
    (simp_all add: BaseTTS_generate_def and_then_simps wave_close_eq on_proc_def on_file_def
      Popen_wait_def Let_def)

lemma select_target_encoder:
  assumes "map_of (CMD w) (format w) = Some cmd"
  shows "BaseTTS_select_target w =
     Returns (Stdin (length (procs (heap w))))
       (w\<lparr>popen := Some (length (procs (heap w))),
          heap := (heap w)\<lparr>procs := procs (heap w) @ [Popen_init cmd]\<rparr>\<rparr>)"
proof -
  from assms have "format w \<in> fst ` set (CMD w)"
    by (metis domI dom_map_of_conv_image_fst)
  with assms show ?thesis
    by (simp add: BaseTTS_select_target_def BaseTTS_popen_create_def and_then_simps)
qed

lemma select_target_native:
  assumes "format w \<notin> fst ` set (CMD w)"
  shows "BaseTTS_select_target w =
     Returns (File (length (files (heap w))))
       (w\<lparr>tts_file := Some (length (files (heap w))),
          heap := (heap w)\<lparr>files := files (heap w) @ [FakeFile_init]\<rparr>\<rparr>)"
  using assms by (simp add: BaseTTS_select_target_def)

lemma select_target_state:
  assumes "p < length (procs (heap w))" and "popen w = None"
  shows "case BaseTTS_select_target w of
           Returns t w' \<Rightarrow> popen w' \<noteq> Some p \<and> procs (heap w') ! p = procs (heap w) ! p
         | _ \<Rightarrow> False"
proof (cases "format w \<in> fst ` set (CMD w)")
  case True
  from map_of_in_keys [OF this] obtain cmd where "map_of (CMD w) (format w) = Some cmd" ..
  from select_target_encoder [OF this] show ?thesis
    using assms by (simp add: nth_append)
next
  case False
  then show ?thesis
    using assms by (simp add: select_target_native)
qed

lemma configure_state:
  obtains w' where "state_of (configure t w) = Some w'" "popen w' = popen w" "heap w' = heap w"
  by (cases "sample_rate w \<le> 0") (simp_all add: configure_def)

lemma start_stream_kills:
  assumes "popen w = Some p" "p < length (procs (heap w))" "status (procs (heap w) ! p) = Running"
  shows "case state_of (BaseTTS_start_stream BaseTTS_select_target w) of
           Some w3 \<Rightarrow> popen w3 \<noteq> Some p \<and> status (procs (heap w3) ! p) = Killed
         | None \<Rightarrow> False"
proof -
  have c: "p < length (procs (heap (cleanup w)))" "popen (cleanup w) = None"
    "status (procs (heap (cleanup w)) ! p) = Killed"
    using assms by (simp_all add: cleanup_def on_proc_def Popen_kill_def)
  from select_target_state [OF c(1,2)] obtain t w' where
    s: "BaseTTS_select_target (cleanup w) = Returns t w'" and "popen w' \<noteq> Some p"
    and "procs (heap w') ! p = procs (heap (cleanup w)) ! p"
    by (cases "BaseTTS_select_target (cleanup w)") simp_all
  with c(3) have k: "popen w' \<noteq> Some p" "status (procs (heap w') ! p) = Killed"
    by simp_all
  obtain w3 where w3: "state_of (configure t w') = Some w3" "popen w3 = popen w'" "heap w3 = heap w'"
    by (rule configure_state)
  have "state_of (BaseTTS_start_stream BaseTTS_select_target w) = Some w3"
    by (simp add: start_stream_eq s and_then_simps w3(1))
  with k w3(2,3) show ?thesis by simp
qed

lemma speech_callback_flag:
  "BaseTTS_speech_callback samples count w = Returns flag w' \<Longrightarrow> flag = work w \<and> work w' = work w"
  by (auto simp: BaseTTS_speech_callback_def Wave_write_writeframesraw_def and_then_def
      WaveWrite_ensure_header_written_def Let_def split: option.splits if_splits)

text \<open>
  C5, as stated, fails.  A fresh worker with the \<^verbatim>\<open>lame\<close> encoder serves one \<^verbatim>\<open>mp3\<close> request;
  the engine announces the rate and delivers one sample; the encoder does not exit within
  the five seconds.  \<^verbatim>\<open>_generate\<close> returns, and the subprocess still runs: \<^verbatim>\<open>except
  subprocess.TimeoutExpired: pass\<close> does not kill it.
\<close>

theorem generate_timeout_counterexample:
  "BaseTTS_generate (scripted BaseTTS_select_target [Announce_rate 24000, Deliver [1, 2] 1]) False
      (''hi'', ''anna'', ''mp3'') (BaseTTS_init [(''mp3'', [''lame'', ''-''])])
   = Returns ()
       \<lparr>CMD = [(''mp3'', [''lame'', ''-''])], wait = True, queue = [], sample_rate = 24000,
        format = ''mp3'', popen = Some 0, tts_file = None, wave = None, work = True,
        heap =
          \<lparr>procs =
             [\<lparr>args = [''lame'', ''-''],
               stdin_data =
                 [82, 73, 70, 70, 34, 0, 0, 16, 87, 65, 86, 69, 102, 109, 116, 32, 16, 0, 0, 0,
                  1, 0, 1, 0, 192, 93, 0, 0, 128, 187, 0, 0, 2, 0, 16, 0, 100, 97, 116, 97,
                  254, 255, 255, 15, 1, 2],
               stdin_closed = True, stdout_data = [], status = Running\<rparr>],
           files = []\<rparr>\<rparr>"
  by code_simp

text \<open>
  C5, amended.  When the wait of five seconds after closing the encoder's input times
  out, \<^verbatim>\<open>_generate\<close> swallows the timeout and returns normally, so no error reaches the
  caller; the subprocess is left running, its input closed, and the worker still refers
  to it.  It is killed only when the stream of the next utterance is started:
  \<^verbatim>\<open>_start_stream\<close> leaves it killed and no longer referred to, whether the setters that
  follow succeed or raise.
\<close>

theorem generate_timeout_leaves_subprocess:
  assumes "engine voice utt (w\<lparr>format := fmt\<rparr>) = Returns () w1"
    and "popen w1 = Some p" and "p < length (procs (heap w1))"
    and "status (procs (heap w1) ! p) = Running"
  shows "case BaseTTS_generate engine False (utt, voice, fmt) w of
           Returns u w2 \<Rightarrow>
             popen w2 = Some p \<and> status (procs (heap w2) ! p) = Running \<and>
             stdin_closed (procs (heap w2) ! p) \<and>
             (case state_of (BaseTTS_start_stream BaseTTS_select_target w2) of
                Some w3 \<Rightarrow> popen w3 \<noteq> Some p \<and> status (procs (heap w3) ! p) = Killed
              | None \<Rightarrow> False)
         | Raises e w2 \<Rightarrow> False
         | Blocks \<Rightarrow> False"
proof -
  define w2 where "w2 = (case tts_file w1 of
           None \<Rightarrow> w1\<lparr>wave := None\<rparr>
         | Some f \<Rightarrow> w1\<lparr>wave := None, heap := on_file f FakeFile_end (heap w1)\<rparr>)
        \<lparr>heap := on_proc p (\<lambda>pr. snd (Popen_wait False (pr\<lparr>stdin_closed := True\<rparr>)))
           (case tts_file w1 of None \<Rightarrow> heap w1 | Some f \<Rightarrow> on_file f FakeFile_end (heap w1))\<rparr>"
  have g: "BaseTTS_generate engine False (utt, voice, fmt) w = Returns () w2"
    unfolding w2_def
    by (rule generate_with_popen [where engine = engine and in_time = False, OF assms(1,2,3)])
  have p: "popen w2 = Some p" "p < length (procs (heap w2))"
    "status (procs (heap w2) ! p) = Running" "stdin_closed (procs (heap w2) ! p)"
    using assms(2,3,4)
    by (cases "tts_file w1"; simp add: w2_def on_proc_def on_file_def Popen_wait_def)+
  show ?thesis
    using p(1,3,4) start_stream_kills [OF p(1,2,3)] by (simp add: g)
qed

theorem generate_timeout_leaves_subprocess_witness:
  "scripted BaseTTS_select_target [] ''anna'' ''hi''
      ((BaseTTS_init [(''mp3'', [''lame'', ''-''])])
         \<lparr>popen := Some 0, heap := \<lparr>procs = [Popen_init [''lame'', ''-'']], files = []\<rparr>,
          format := ''mp3''\<rparr>)
     = Returns ()
         ((BaseTTS_init [(''mp3'', [''lame'', ''-''])])
            \<lparr>popen := Some 0, heap := \<lparr>procs = [Popen_init [''lame'', ''-'']], files = []\<rparr>,
             format := ''mp3''\<rparr>) \<and>
   (case BaseTTS_generate (scripted BaseTTS_select_target []) False (''hi'', ''anna'', ''mp3'')
           ((BaseTTS_init [(''mp3'', [''lame'', ''-''])])
              \<lparr>popen := Some 0, heap := \<lparr>procs = [Popen_init [''lame'', ''-'']], files = []\<rparr>\<rparr>) of
      Returns u w2 \<Rightarrow>
        popen w2 = Some 0 \<and> status (procs (heap w2) ! 0) = Running \<and>
        stdin_closed (procs (heap w2) ! 0) \<and>
        (case state_of (BaseTTS_start_stream BaseTTS_select_target w2) of
           Some w3 \<Rightarrow> popen w3 \<noteq> Some 0 \<and> status (procs (heap w3) ! 0) = Killed
         | None \<Rightarrow> False)
    | Raises e w2 \<Rightarrow> False
    | Blocks \<Rightarrow> False)"
proof -
  let ?w = "(BaseTTS_init [(''mp3'', [''lame'', ''-''])])
              \<lparr>popen := Some 0, heap := \<lparr>procs = [Popen_init [''lame'', ''-'']], files = []\<rparr>\<rparr>"
  have h1: "scripted BaseTTS_select_target [] ''anna'' ''hi'' (?w\<lparr>format := ''mp3''\<rparr>)
      = Returns () (?w\<lparr>format := ''mp3''\<rparr>)"
    by (simp add: scripted_def)
  have h2: "popen (?w\<lparr>format := ''mp3''\<rparr>) = Some 0" by simp
  have h3: "0 < length (procs (heap (?w\<lparr>format := ''mp3''\<rparr>)))" by simp
  have h4: "status (procs (heap (?w\<lparr>format := ''mp3''\<rparr>)) ! 0) = Running"
    by (simp add: Popen_init_def)
  from generate_timeout_leaves_subprocess
    [where engine = "scripted BaseTTS_select_target []", OF h1 h2 h3 h4] h1
  show ?thesis by simp
qed

text \<open>
  C6, as stated, fails on a thread worker.  The worker writes an utterance to a FakeFile;
  the chunk callback returns \<open>True\<close>.  Once \<^verbatim>\<open>join\<close> of OneTTS has assigned \<^verbatim>\<open>_work = False\<close>, the
  same callback returns \<open>False\<close>, the flag on which the engine stops the utterance.
\<close>

theorem OneTTS_join_cancels_counterexample:
  "returned (BaseTTS_speech_callback [1, 2] 1
      \<lparr>CMD = [], wait = True, queue = [], sample_rate = 24000, format = ''wav'',
       popen = None, tts_file = Some 0,
       wave = Some ((Wave_write_init (File 0))\<lparr>nchannels := 1, sampwidth := 2, framerate := 24000\<rparr>),
       work = True, heap = \<lparr>procs = [], files = [FakeFile_init]\<rparr>\<rparr>) = Some True \<and>
   returned (BaseTTS_speech_callback [1, 2] 1 (OneTTS_join
      \<lparr>CMD = [], wait = True, queue = [], sample_rate = 24000, format = ''wav'',
       popen = None, tts_file = Some 0,
       wave = Some ((Wave_write_init (File 0))\<lparr>nchannels := 1, sampwidth := 2, framerate := 24000\<rparr>),
       work = True, heap = \<lparr>procs = [], files = [FakeFile_init]\<rparr>\<rparr>)) = Some False"
  by (simp add: BaseTTS_speech_callback_def Wave_write_writeframesraw_def and_then_def
      Wave_write_init_def WaveWrite_ensure_header_written_def SAMPLE_SIZE_def string_at_def
      OneTTS_join_def)

text \<open>
  C6, amended.  \<^verbatim>\<open>join\<close> of a thread worker (OneTTS) clears the one \<^verbatim>\<open>_work\<close> flag and queues
  the stop signal behind the requests already queued; every chunk callback that returns
  after it returns \<open>False\<close>, and the engine makes no further callback of the utterance in
  flight.  \<^verbatim>\<open>join\<close> of a process worker (ProcessTTS) queues the stop signal too, but clears
  only the parent's copy of the flag: in the worker process the chunk callback returns
  what it returned before, the worker's own \<^verbatim>\<open>_work\<close>, so the utterance in flight is not
  cut short.
\<close>

theorem join_and_speech_callback:
  "work (OneTTS_join w) = False \<and> queue (OneTTS_join w) = queue w @ [None] \<and>
   (BaseTTS_speech_callback samples count (OneTTS_join w) = Returns flag w' \<longrightarrow>
      flag = False \<and>
      engine_generate select_target (Deliver samples count # script) (OneTTS_join w) = Returns () w') \<and>
   work (ProcessTTS_join v) = work v \<and> parent_work (ProcessTTS_join v) = False \<and>
   queue (ProcessTTS_join v) = queue v @ [None] \<and>
   returned (BaseTTS_speech_callback samples count (ProcessTTS_join v))
     = returned (BaseTTS_speech_callback samples count v) \<and>
   (BaseTTS_speech_callback samples count (ProcessTTS_join v) = Returns flag' v' \<longrightarrow> flag' = work v)"
proof -
  have a: "work (OneTTS_join w) = False" "queue (OneTTS_join w) = queue w @ [None]"
    by (simp_all add: OneTTS_join_def)
  have b: "flag = False \<and>
      engine_generate select_target (Deliver samples count # script) (OneTTS_join w) = Returns () w'"
    if "BaseTTS_speech_callback samples count (OneTTS_join w) = Returns flag w'"
    using speech_callback_flag [OF that] that a by (simp add: and_then_def)
  have c: "work (ProcessTTS_join v) = work v" "parent_work (ProcessTTS_join v) = False"
    "queue (ProcessTTS_join v) = queue v @ [None]"
    by (simp_all add: ProcessTTS_join_def)
  have d: "returned (BaseTTS_speech_callback samples count (ProcessTTS_join v))
     = returned (BaseTTS_speech_callback samples count v)"
    by (simp add: BaseTTS_speech_callback_def Wave_write_writeframesraw_def and_then_def
      WaveWrite_ensure_header_written_def Let_def ProcessTTS_join_def split: option.splits)
  have e: "flag' = work v"
    if "BaseTTS_speech_callback samples count (ProcessTTS_join v) = Returns flag' v'"
    using speech_callback_flag [OF that] c by simp
  from a b c d e show ?thesis by blast
qed

theorem join_and_speech_callback_witness:
  "BaseTTS_speech_callback [1, 2] 1 (OneTTS_join
      ((BaseTTS_init [])\<lparr>tts_file := Some 0,
         wave := Some ((Wave_write_init (File 0))\<lparr>nchannels := 1, sampwidth := 2, framerate := 24000\<rparr>),
         heap := \<lparr>procs = [], files = [FakeFile_init]\<rparr>\<rparr>))
     = Returns False
      ((BaseTTS_init [])\<lparr>tts_file := Some 0,
         wave := Some ((Wave_write_init (File 0))\<lparr>nchannels := 1, sampwidth := 2, framerate := 24000,
                         datawritten := 2, nframeswritten := 1\<rparr>),
         heap := \<lparr>procs = [], files = [\<lparr>items = [[1, 2]], open_flag = True\<rparr>]\<rparr>,
         work := False, queue := [None]\<rparr>) \<and>
   engine_generate BaseTTS_select_target [Deliver [1, 2] 1, Deliver [3, 4] 1] (OneTTS_join
      ((BaseTTS_init [])\<lparr>tts_file := Some 0,
         wave := Some ((Wave_write_init (File 0))\<lparr>nchannels := 1, sampwidth := 2, framerate := 24000\<rparr>),
         heap := \<lparr>procs = [], files = [FakeFile_init]\<rparr>\<rparr>))
     = Returns ()
      ((BaseTTS_init [])\<lparr>tts_file := Some 0,
         wave := Some ((Wave_write_init (File 0))\<lparr>nchannels := 1, sampwidth := 2, framerate := 24000,
                         datawritten := 2, nframeswritten := 1\<rparr>),
         heap := \<lparr>procs = [], files = [\<lparr>items = [[1, 2]], open_flag = True\<rparr>]\<rparr>,
         work := False, queue := [None]\<rparr>) \<and>
   BaseTTS_speech_callback [1, 2] 1 (ProcessTTS_join
      ((ProcessTTS_init [])\<lparr>tts_file := Some 0,
         wave := Some ((Wave_write_init (File 0))\<lparr>nchannels := 1, sampwidth := 2, framerate := 24000\<rparr>),
         heap := \<lparr>procs = [], files = [FakeFile_init]\<rparr>\<rparr>))
     = Returns True
      ((ProcessTTS_init [])\<lparr>tts_file := Some 0,
         wave := Some ((Wave_write_init (File 0))\<lparr>nchannels := 1, sampwidth := 2, framerate := 24000,
                         datawritten := 2, nframeswritten := 1\<rparr>),
         heap := \<lparr>procs = [], files = [\<lparr>items = [[1, 2]], open_flag = True\<rparr>]\<rparr>,
         parent_work := False, queue := [None]\<rparr>)"
proof -
  let ?w = "(BaseTTS_init [])\<lparr>tts_file := Some 0,
         wave := Some ((Wave_write_init (File 0))\<lparr>nchannels := 1, sampwidth := 2, framerate := 24000\<rparr>),
         heap := \<lparr>procs = [], files = [FakeFile_init]\<rparr>\<rparr>"
  let ?w' = "(BaseTTS_init [])\<lparr>tts_file := Some 0,
         wave := Some ((Wave_write_init (File 0))\<lparr>nchannels := 1, sampwidth := 2, framerate := 24000,
                         datawritten := 2, nframeswritten := 1\<rparr>),
         heap := \<lparr>procs = [], files = [\<lparr>items = [[1, 2]], open_flag = True\<rparr>]\<rparr>,
         work := False, queue := [None]\<rparr>"
  let ?v = "(ProcessTTS_init [])\<lparr>tts_file := Some 0,
         wave := Some ((Wave_write_init (File 0))\<lparr>nchannels := 1, sampwidth := 2, framerate := 24000\<rparr>),
         heap := \<lparr>procs = [], files = [FakeFile_init]\<rparr>\<rparr>"
  let ?v' = "(ProcessTTS_init [])\<lparr>tts_file := Some 0,
         wave := Some ((Wave_write_init (File 0))\<lparr>nchannels := 1, sampwidth := 2, framerate := 24000,
                         datawritten := 2, nframeswritten := 1\<rparr>),
         heap := \<lparr>procs = [], files = [\<lparr>items = [[1, 2]], open_flag = True\<rparr>]\<rparr>,
         parent_work := False, queue := [None]\<rparr>"
  have a: "BaseTTS_speech_callback [1, 2] 1 (OneTTS_join ?w) = Returns False ?w'"
    by (simp add: BaseTTS_speech_callback_def Wave_write_writeframesraw_def and_then_def
      Wave_write_init_def WaveWrite_ensure_header_written_def SAMPLE_SIZE_def string_at_def
      OneTTS_join_def BaseTTS_init_def FakeFile_init_def FakeFile_write_def)
  have b: "BaseTTS_speech_callback [1, 2] 1 (ProcessTTS_join ?v) = Returns True ?v'"
    by (simp add: BaseTTS_speech_callback_def Wave_write_writeframesraw_def and_then_def
      Wave_write_init_def WaveWrite_ensure_header_written_def SAMPLE_SIZE_def string_at_def
      ProcessTTS_join_def ProcessTTS_init_def FakeFile_init_def FakeFile_write_def)
  from join_and_speech_callback [where w = ?w and samples = "[1, 2]" and count = 1 and flag = False
      and w' = ?w' and select_target = BaseTTS_select_target and script = "[Deliver [3, 4] 1]"
      and v = ?v and flag' = True and v' = ?v'] a b
  show ?thesis by blast
qed

subsection \<open>The header of a native stream\<close>

lemma target_write_File: "target_write (File n) d h = on_file n (FakeFile_write d) h"
  by (simp add: on_file_def)

lemma pack_uint_ok: "0 \<le> v \<Longrightarrow> v < 2 ^ (8 * n) \<Longrightarrow> pack_uint n v = Inr (le_bytes n v)"
  by (simp add: pack_uint_def)

lemma ascii_nonempty: "ascii ''RIFF'' \<noteq> []" 
  by (simp add: ascii_def)

lemma le_bytes_nonempty: "0 < n \<Longrightarrow> le_bytes n v \<noteq> []"
  by (simp add: le_bytes_def)

lemma returns_and_then:
  assumes "returns m P" and "\<And>a s. P a s \<Longrightarrow> returns (k a s) Q"
  shows "returns (and_then m k) Q"
  using assms by (cases m) (simp_all add: returns_def and_then_simps)

lemma returns_mono:
  assumes "returns m P" and "\<And>a s. P a s \<Longrightarrow> Q a s"
  shows "returns m Q"
  using assms by (cases m) (simp_all add: returns_def)

lemma returns_Returns: "returns (Returns a s) P = P a s"
  by (simp add: returns_def)

lemma write_header_streaming:
  assumes "0 < rate" "rate < 2 ^ 31" "n < length (files (heap w))" "files (heap w) ! n = FakeFile_init"
    and "wave w = Some ((Wave_write_init (File n))\<lparr>nchannels := 1, sampwidth := 2, framerate := rate\<rparr>)"
    and "tts_file w = Some n" "popen w = None"
  shows "returns (Wave_write_write_header 0xFFFFFFF w)
           (\<lambda>u w'. streaming n (header_chunks rate) w' \<and> work w' = work w \<and>
              BaseTTS.more w' = BaseTTS.more w \<and> length (files (heap w')) = length (files (heap w)))"
  using assms
  apply (simp add: Wave_write_write_header_def Wave_write_init_def Let_def pack_uint_ok
      target_write_File returns_def)
  apply (simp add: streaming_def on_file_def FakeFile_write_def FakeFile_init_def header_chunks_def
      ascii_nonempty le_bytes_nonempty mult.commute)
  done

lemma sr_callback_eq:
  "BaseTTS_sr_callback sel rate w =
     and_then (sel (cleanup (w\<lparr>sample_rate := rate\<rparr>))) (\<lambda>t w4.
     and_then (configure t w4) (\<lambda>_ w1.
     and_then (Wave_write_write_header 0xFFFFFFF w1) (\<lambda>_ w2. Returns True (w2\<lparr>wait := True\<rparr>))))"
  by (cases "sel (cleanup (w\<lparr>sample_rate := rate\<rparr>))")
    (simp_all add: BaseTTS_sr_callback_def start_stream_eq and_then_simps)

lemma streaming_wait: "streaming n q (w\<lparr>wait := b\<rparr>) = streaming n q w"
  by (simp add: streaming_def)

lemma sr_callback_file:
  assumes "sel (cleanup (w\<lparr>sample_rate := rate\<rparr>)) = Returns (File n) w4"
    and "tts_file w4 = Some n" "popen w4 = None" "n < length (files (heap w4))"
    and "files (heap w4) ! n = FakeFile_init" and "sample_rate w4 = rate"
    and "0 < rate" and "rate < 2 ^ 31"
  shows "returns (BaseTTS_sr_callback sel rate w)
           (\<lambda>flag w'. flag \<and> wait w' \<and> streaming n (header_chunks rate) w' \<and> work w' = work w4 \<and>
              BaseTTS.more w' = BaseTTS.more w4 \<and> length (files (heap w')) = length (files (heap w4)))"
proof -
  define w5 where "w5 = w4\<lparr>wave := Some ((Wave_write_init (File n))\<lparr>nchannels := 1, sampwidth := 2,
                                               framerate := rate\<rparr>)\<rparr>"
  have k: "configure (File n) w4 = Returns () w5"
    using assms(6,7) by (simp add: configure_def w5_def)
  have h: "returns (Wave_write_write_header 0xFFFFFFF w5)
           (\<lambda>u w'. streaming n (header_chunks rate) w' \<and> work w' = work w5 \<and>
              BaseTTS.more w' = BaseTTS.more w5 \<and> length (files (heap w')) = length (files (heap w5)))"
    using assms(2-5,7,8) by (intro write_header_streaming) (simp_all add: w5_def)
  have "returns (and_then (Wave_write_write_header 0xFFFFFFF w5) (\<lambda>_ w2. Returns True (w2\<lparr>wait := True\<rparr>)))
      (\<lambda>flag w'. flag \<and> wait w' \<and> streaming n (header_chunks rate) w' \<and> work w' = work w4 \<and>
              BaseTTS.more w' = BaseTTS.more w4 \<and> length (files (heap w')) = length (files (heap w4)))"
    using h
    by (rule returns_and_then) (simp add: returns_Returns streaming_wait w5_def)
  then show ?thesis
    by (simp add: sr_callback_eq assms(1) k and_then_simps)
qed

lemma cleanup_fields:
  "format (cleanup w) = format w" "CMD (cleanup w) = CMD w" "sample_rate (cleanup w) = sample_rate w"
  "popen (cleanup w) = None" "files (heap (cleanup w)) = files (heap w)" "work (cleanup w) = work w"
  "BaseTTS.more (cleanup w) = BaseTTS.more w"
  by (cases "popen w"; simp add: cleanup_def on_proc_def)+

lemma sr_callback_native:
  assumes "format w \<notin> fst ` set (CMD w)" and "0 < rate" and "rate < 2 ^ 31"
  shows "returns (BaseTTS_sr_callback BaseTTS_select_target rate w)
           (\<lambda>flag w'. flag \<and> wait w' \<and> streaming (length (files (heap w))) (header_chunks rate) w' \<and>
              work w' = work w \<and> BaseTTS.more w' = BaseTTS.more w)"
proof -
  let ?n = "length (files (heap w))"
  let ?c = "cleanup (w\<lparr>sample_rate := rate\<rparr>)"
  define w4 where "w4 = ?c\<lparr>tts_file := Some ?n, heap := (heap ?c)\<lparr>files := files (heap ?c) @ [FakeFile_init]\<rparr>\<rparr>"
  have s: "BaseTTS_select_target ?c = Returns (File ?n) w4"
    using assms(1) unfolding w4_def by (subst select_target_native) (simp_all add: cleanup_fields)
  have "returns (BaseTTS_sr_callback BaseTTS_select_target rate w)
           (\<lambda>flag w'. flag \<and> wait w' \<and> streaming ?n (header_chunks rate) w' \<and> work w' = work w4 \<and>
              BaseTTS.more w' = BaseTTS.more w4 \<and> length (files (heap w')) = length (files (heap w4)))"
    using assms(2,3) by (intro sr_callback_file [where sel = BaseTTS_select_target, OF s]) (simp_all add: w4_def cleanup_fields)
  then show ?thesis
    by (rule returns_mono) (simp add: w4_def cleanup_fields)
qed

lemma speech_callback_streaming:
  assumes "streaming n q w"
  shows "returns (BaseTTS_speech_callback samples count w)
           (\<lambda>flag w'. flag = work w \<and> work w' = work w \<and> BaseTTS.more w' = BaseTTS.more w \<and>
              streaming n (q @ chunks_of [Deliver samples count]) w')"
proof -
  from assms obtain wv where wv: "wave w = Some wv" "wfile wv = Some (File n)"
    "nchannels wv = 1" "sampwidth wv = 2"
    by (cases "wave w") (simp_all add: streaming_def)
  with assms show ?thesis
    by (simp add: BaseTTS_speech_callback_def Wave_write_writeframesraw_def and_then_simps
        WaveWrite_ensure_header_written_def returns_def streaming_def target_write_File on_file_def
        FakeFile_write_def chunks_of_def)
qed

lemma deliveries_streaming:
  assumes "streaming n q w"
  shows "returns (engine_generate sel (deliveries chunks) w)
           (\<lambda>u w'. work w' = work w \<and> BaseTTS.more w' = BaseTTS.more w \<and>
              streaming n (q @ chunks_of (made (work w) (deliveries chunks))) w')"
  using assms
proof (induction chunks arbitrary: q w)
  case Nil
  then show ?case by (simp add: returns_def made_def chunks_of_def deliveries_def)
next
  case (Cons x chunks)
  obtain s c where x: "x = (s, c)" by (cases x)
  have d: "deliveries (x # chunks) = Deliver s c # deliveries chunks"
    by (simp add: deliveries_def x)
  show ?case
    unfolding d engine_generate.simps callback.simps
  proof (rule returns_and_then [OF speech_callback_streaming [OF Cons.prems]], goal_cases)
    case (1 flag w1)
    show ?case
    proof (cases "work w")
      case True
      with 1 have f: "flag" "work w1 = True" by simp_all
      from 1 have "streaming n (q @ chunks_of [Deliver s c]) w1" by simp
      from Cons.IH [OF this] True f 1 show ?thesis
        by (auto simp: made_def chunks_of_def elim!: returns_mono)
    next
      case False
      with 1 show ?thesis
        by (simp add: returns_def made_def)
    qed
  qed
qed

lemma generate_tail_streaming:
  assumes "returns (engine voice utt (w\<lparr>format := fmt\<rparr>)) (\<lambda>u w1. streaming n q w1 \<and> BaseTTS.more w1 = m)"
  shows "returns (BaseTTS_generate engine in_time (utt, voice, fmt) w)
           (\<lambda>u w'. tts_file w' = Some n \<and> popen w' = None \<and> wave w' = None \<and>
              n < length (files (heap w')) \<and>
              files (heap w') ! n = \<lparr>items = q @ [[]], open_flag = True\<rparr> \<and>
              BaseTTS.more w' = m)"
proof (cases "engine voice utt (w\<lparr>format := fmt\<rparr>)")
  case Blocks
  with assms show ?thesis by (simp add: returns_def)
next
  case (Raises e w1)
  with assms show ?thesis by (simp add: returns_def)
next
  case (Returns u w1)
  with assms have 1: "streaming n q w1" "BaseTTS.more w1 = m" by (simp_all add: returns_def)
  have "BaseTTS_generate engine in_time (utt, voice, fmt) w
      = Returns () (w1\<lparr>wave := None, heap := on_file n FakeFile_end (heap w1)\<rparr>)"
    using 1(1) by (simp add: BaseTTS_generate_def Returns and_then_simps wave_close_eq streaming_def)
  then show ?thesis
    using 1 by (simp add: returns_def streaming_def on_file_def FakeFile_end_def)
qed

lemma script_streaming:
  assumes "returns (BaseTTS_sr_callback sel rate w)
             (\<lambda>flag w'. flag \<and> streaming n q w' \<and> work w' = b \<and> BaseTTS.more w' = m)"
  shows "returns (scripted sel (Announce_rate rate # deliveries chunks) voice utt w)
           (\<lambda>u w'. streaming n (q @ chunks_of (made b (deliveries chunks))) w' \<and> BaseTTS.more w' = m)"
  unfolding scripted_def engine_generate.simps callback.simps
proof (rule returns_and_then [OF assms], goal_cases)
  case (1 flag w1)
  then have s: "streaming n q w1" and w: "work w1 = b" "flag" "BaseTTS.more w1 = m" by simp_all
  from deliveries_streaming [OF s, of sel chunks] w show ?case
    by (auto elim!: returns_mono)
qed

lemma generate_script_streaming:
  assumes "returns (BaseTTS_sr_callback sel rate (w\<lparr>format := fmt\<rparr>))
             (\<lambda>flag w'. flag \<and> streaming n q w' \<and> work w' = b \<and> BaseTTS.more w' = m)"
  shows "returns (BaseTTS_generate (scripted sel (Announce_rate rate # deliveries chunks)) in_time
                    (utt, voice, fmt) w)
           (\<lambda>u w'. tts_file w' = Some n \<and> popen w' = None \<and> wave w' = None \<and>
              n < length (files (heap w')) \<and>
              files (heap w') ! n = \<lparr>items = (q @ chunks_of (made b (deliveries chunks))) @ [[]],
                                      open_flag = True\<rparr> \<and>
              BaseTTS.more w' = m)"
  by (rule generate_tail_streaming
      [where engine = "scripted sel (Announce_rate rate # deliveries chunks)",
        OF script_streaming [OF assms]])

lemma declared_length_bytes: "le_bytes 4 0xFFFFFFE = [254, 255, 255, 15]"
  by code_simp

lemma header_chunks_bytes:
  "map length (header_chunks rate) = [4, 36, 4] \<and> header_chunks rate ! 2 = [254, 255, 255, 15]"
  using declared_length_bytes by (simp add: header_chunks_def le_bytes_def ascii_def)

text \<open>
  C7.  The worker of a native request, one whose format has no encoder: \<^verbatim>\<open>_select_target\<close>
  gives a new FakeFile.  The rate is a positive C integer.
  \<^item> The rate callback returns \<open>True\<close> with the event set and the new FakeFile holding the
    header and nothing else: the three chunks that \<^verbatim>\<open>_write_header(0xFFFFFFF)\<close> writes, 4, 36
    and 4 bytes, the last being the declared data length \<open>0xFFFFFFE\<close>, the whole two-byte
    frames in \<open>0xFFFFFFF\<close> bytes.
  \<^item> A chunk callback on a worker that streams to a FakeFile leaves everything queued as it
    is and appends its bytes, as they are, as one chunk (none when it has no bytes).
  \<^item> For an engine that announces the rate once and then delivers chunks, the FakeFile at
    the end of \<^verbatim>\<open>_generate\<close> holds the header once, at the front, then the bytes of the chunk
    callbacks made, in order, then the sentinel of \<^verbatim>\<open>end()\<close>; closing the wave writer wrote
    nothing.  (All the callbacks are made while \<^verbatim>\<open>_work\<close> is set, the first only once it is
    cleared.)
\<close>

theorem native_header_written_once:
  fixes w :: "'a BaseTTS_scheme"
  assumes "fmt \<notin> fst ` set (CMD w)" and "0 < rate" and "rate < 2 ^ 31"
  shows
    "returns (BaseTTS_sr_callback BaseTTS_select_target rate (w\<lparr>format := fmt\<rparr>))
       (\<lambda>flag w1. flag \<and> wait w1 \<and> streaming (length (files (heap w))) (header_chunks rate) w1) \<and>
     (\<forall>n q. \<forall>w1 :: 'a BaseTTS_scheme. streaming n q w1 \<longrightarrow>
        returns (BaseTTS_speech_callback samples count w1)
          (\<lambda>flag w2. streaming n (q @ chunks_of [Deliver samples count]) w2)) \<and>
     returns (BaseTTS_generate (scripted BaseTTS_select_target (Announce_rate rate # deliveries chunks))
                in_time (utt, voice, fmt) w)
       (\<lambda>u w'. tts_file w' = Some (length (files (heap w))) \<and> wave w' = None \<and>
          files (heap w') ! length (files (heap w))
            = \<lparr>items = header_chunks rate @ chunks_of (made (work w) (deliveries chunks)) @ [[]],
               open_flag = True\<rparr>) \<and>
     map length (header_chunks rate) = [4, 36, 4] \<and> header_chunks rate ! 2 = [254, 255, 255, 15]"
proof -
  let ?w0 = "w\<lparr>format := fmt\<rparr>"
  let ?n = "length (files (heap w))"
  have sr: "returns (BaseTTS_sr_callback BaseTTS_select_target rate ?w0)
      (\<lambda>flag w'. flag \<and> wait w' \<and> streaming (length (files (heap ?w0))) (header_chunks rate) w' \<and>
              work w' = work ?w0 \<and> BaseTTS.more w' = BaseTTS.more ?w0)"
    using assms by (intro sr_callback_native) simp_all
  then have a: "returns (BaseTTS_sr_callback BaseTTS_select_target rate ?w0)
       (\<lambda>flag w1. flag \<and> wait w1 \<and> streaming ?n (header_chunks rate) w1)"
    by (rule returns_mono) simp
  have b: "returns (BaseTTS_speech_callback samples count w1)
          (\<lambda>flag w2. streaming n (q @ chunks_of [Deliver samples count]) w2)"
    if "streaming n q w1" for n q and w1 :: "'a BaseTTS_scheme"
    using speech_callback_streaming [OF that] by (rule returns_mono) simp
  have "returns (BaseTTS_sr_callback BaseTTS_select_target rate ?w0)
      (\<lambda>flag w'. flag \<and> streaming ?n (header_chunks rate) w' \<and> work w' = work w \<and>
         BaseTTS.more w' = BaseTTS.more w)"
    using sr by (rule returns_mono) simp
  from generate_script_streaming [OF this, of chunks in_time utt voice]
  have c: "returns (BaseTTS_generate (scripted BaseTTS_select_target (Announce_rate rate # deliveries chunks))
                in_time (utt, voice, fmt) w)
       (\<lambda>u w'. tts_file w' = Some ?n \<and> wave w' = None \<and>
          files (heap w') ! ?n
            = \<lparr>items = header_chunks rate @ chunks_of (made (work w) (deliveries chunks)) @ [[]],
               open_flag = True\<rparr>)"
    by (rule returns_mono) simp
  from a b c header_chunks_bytes [of rate] show ?thesis by blast
qed

theorem native_header_written_once_witness:
  "''wav'' \<notin> fst ` set (CMD (BaseTTS_init [(''mp3'', [''lame'', ''-''])])) \<and>
   (0 :: int) < 24000 \<and> (24000 :: int) < 2 ^ 31 \<and>
   returns (BaseTTS_sr_callback BaseTTS_select_target 24000
              ((BaseTTS_init [(''mp3'', [''lame'', ''-''])])\<lparr>format := ''wav''\<rparr>))
     (\<lambda>flag w1. flag \<and> wait w1 \<and>
        streaming (length (files (heap (BaseTTS_init [(''mp3'', [''lame'', ''-''])])))) (header_chunks 24000) w1) \<and>
   streaming 0 []
     ((BaseTTS_init [])\<lparr>tts_file := Some 0,
         wave := Some ((Wave_write_init (File 0))\<lparr>nchannels := 1, sampwidth := 2, framerate := 24000\<rparr>),
         heap := \<lparr>procs = [], files = [FakeFile_init]\<rparr>\<rparr>) \<and>
   returns (BaseTTS_speech_callback [1, 2, 3] 1
     ((BaseTTS_init [])\<lparr>tts_file := Some 0,
         wave := Some ((Wave_write_init (File 0))\<lparr>nchannels := 1, sampwidth := 2, framerate := 24000\<rparr>),
         heap := \<lparr>procs = [], files = [FakeFile_init]\<rparr>\<rparr>))
     (\<lambda>flag w2. streaming 0 ([] @ chunks_of [Deliver [1, 2, 3] 1]) w2) \<and>
   chunks_of [Deliver [1, 2, 3] 1] = [[1, 2]] \<and>
   returns (BaseTTS_generate
              (scripted BaseTTS_select_target (Announce_rate 24000 # deliveries [([1, 2, 3], 1), ([], 0), ([4, 5], 1)]))
              True (''hi'', ''anna'', ''wav'') (BaseTTS_init [(''mp3'', [''lame'', ''-''])]))
     (\<lambda>u w'. tts_file w' = Some (length (files (heap (BaseTTS_init [(''mp3'', [''lame'', ''-''])])))) \<and>
        wave w' = None \<and>
        files (heap w') ! length (files (heap (BaseTTS_init [(''mp3'', [''lame'', ''-''])])))
          = \<lparr>items = header_chunks 24000
                @ chunks_of (made (work (BaseTTS_init [(''mp3'', [''lame'', ''-''])]))
                    (deliveries [([1, 2, 3], 1), ([], 0), ([4, 5], 1)])) @ [[]],
             open_flag = True\<rparr>) \<and>
   chunks_of (made (work (BaseTTS_init [(''mp3'', [''lame'', ''-''])]))
      (deliveries [([1, 2, 3], 1), ([], 0), ([4, 5], 1)])) = [[1, 2], [4, 5]]"
proof -
  let ?w = "BaseTTS_init [(''mp3'', [''lame'', ''-''])]"
  let ?w1 = "(BaseTTS_init [])\<lparr>tts_file := Some 0,
         wave := Some ((Wave_write_init (File 0))\<lparr>nchannels := 1, sampwidth := 2, framerate := 24000\<rparr>),
         heap := \<lparr>procs = [], files = [FakeFile_init]\<rparr>\<rparr>"
  have h1: "''wav'' \<notin> fst ` set (CMD ?w)" by (simp add: BaseTTS_init_def)
  have h2: "(0 :: int) < 24000" and h3: "(24000 :: int) < 2 ^ 31" by simp_all
  have s: "streaming 0 [] ?w1"
    by (simp add: streaming_def BaseTTS_init_def Wave_write_init_def FakeFile_init_def)
  have c1: "chunks_of [Deliver [1, 2, 3] 1] = [[1, 2]]"
    by (simp add: chunks_of_def string_at_def SAMPLE_SIZE_def)
  have c2: "chunks_of (made (work ?w) (deliveries [([1, 2, 3], 1), ([], 0), ([4, 5], 1)])) = [[1, 2], [4, 5]]"
    by (simp add: chunks_of_def made_def deliveries_def string_at_def SAMPLE_SIZE_def BaseTTS_init_def)
  note t = native_header_written_once [OF h1 h2 h3, where samples = "[1, 2, 3]" and count = 1
      and chunks = "[([1, 2, 3], 1), ([], 0), ([4, 5], 1)]" and in_time = True and utt = "''hi''"
      and voice = "''anna''"]
  from t have a: "returns (BaseTTS_sr_callback BaseTTS_select_target 24000 (?w\<lparr>format := ''wav''\<rparr>))
     (\<lambda>flag w1. flag \<and> wait w1 \<and> streaming (length (files (heap ?w))) (header_chunks 24000) w1)"
    by (rule conjunct1)
  from t s have b: "returns (BaseTTS_speech_callback [1, 2, 3] 1 ?w1)
     (\<lambda>flag w2. streaming 0 ([] @ chunks_of [Deliver [1, 2, 3] 1]) w2)"
    by blast
  from t have c: "returns (BaseTTS_generate
              (scripted BaseTTS_select_target (Announce_rate 24000 # deliveries [([1, 2, 3], 1), ([], 0), ([4, 5], 1)]))
              True (''hi'', ''anna'', ''wav'') ?w)
     (\<lambda>u w'. tts_file w' = Some (length (files (heap ?w))) \<and> wave w' = None \<and>
        files (heap w') ! length (files (heap ?w))
          = \<lparr>items = header_chunks 24000
                @ chunks_of (made (work ?w) (deliveries [([1, 2, 3], 1), ([], 0), ([4, 5], 1)])) @ [[]],
             open_flag = True\<rparr>)"
    by blast
  from h1 h2 h3 a s b c1 c c2 show ?thesis by (intro conjI)
qed

subsection \<open>The flags of a process worker\<close>

lemma preserves_and_then:
  assumes "preserves f m s" and "\<And>a s'. preserves f (k a s') s'"
  shows "preserves f (and_then m k) s"
proof (cases m)
  case (Returns a s')
  with assms(1) assms(2) [of a s'] show ?thesis
    by (cases "k a s'") (simp_all add: preserves_def and_then_simps)
qed (use assms(1) in \<open>simp_all add: preserves_def and_then_simps\<close>)

lemma preserves_Returns: "preserves f (Returns a s') s = (f s' = f s)"
  by (simp add: preserves_def)

lemma preserves_Raises: "preserves f (Raises e s') s = (f s' = f s)"
  by (simp add: preserves_def)

lemma more_fields:
  fixes w w' :: ProcessTTS
  assumes "BaseTTS.more w' = BaseTTS.more w"
  shows "stream w' = stream w" "reading w' = reading w" "processing w' = processing w"
    "in_out w' = in_out w" "parent_work w' = parent_work w"
  using assms by (cases w; cases w'; simp)+

lemma preserves_more_reading:
  fixes w :: ProcessTTS
  assumes "preserves BaseTTS.more r w"
  shows "preserves reading r w"
proof (cases r)
  case (Raises e w')
  with assms have "BaseTTS.more w' = BaseTTS.more w" by (simp add: preserves_def)
  from more_fields(2) [OF this] Raises show ?thesis by (simp add: preserves_def)
next
  case (Returns a w')
  with assms have "BaseTTS.more w' = BaseTTS.more w" by (simp add: preserves_def)
  from more_fields(2) [OF this] Returns show ?thesis by (simp add: preserves_def)
qed (simp add: preserves_def)

lemma configure_more: "preserves BaseTTS.more (configure t w) w"
  by (simp add: configure_def preserves_def)

lemma write_header_more: "preserves BaseTTS.more (Wave_write_write_header n w) w"
proof (cases "wave w")
  case None
  then show ?thesis by (simp add: Wave_write_write_header_def preserves_def)
next
  case (Some wv)
  show ?thesis
  proof (cases "wfile wv")
    case None
    with Some show ?thesis by (simp add: Wave_write_write_header_def preserves_def)
  next
    case (Some t)
    with \<open>wave w = Some wv\<close> show ?thesis
      by (simp add: Wave_write_write_header_def preserves_def Let_def split: sum.splits)
  qed
qed

lemma speech_callback_more: "preserves BaseTTS.more (BaseTTS_speech_callback samples count w) w"
proof (cases "wave w")
  case None
  then show ?thesis
    by (simp add: BaseTTS_speech_callback_def Wave_write_writeframesraw_def preserves_def and_then_simps)
next
  case (Some wv)
  then show ?thesis
    by (cases "wfile wv")
      (simp_all add: BaseTTS_speech_callback_def Wave_write_writeframesraw_def preserves_def
        and_then_simps WaveWrite_ensure_header_written_def)
qed


lemma header_tag_more: "preserves BaseTTS.more (Wave_write_header_tag w) w"
proof (cases "wave w")
  case None
  then show ?thesis by (simp add: Wave_write_header_tag_def preserves_def)
next
  case (Some wv)
  then show ?thesis
    by (cases "wfile wv") (simp_all add: Wave_write_header_tag_def preserves_def)
qed

lemma header_form_more: "preserves BaseTTS.more (Wave_write_header_form n w) w"
proof (cases "wave w")
  case None
  then show ?thesis by (simp add: Wave_write_header_form_def preserves_def)
next
  case (Some wv)
  show ?thesis
  proof (cases "wfile wv")
    case None
    with Some show ?thesis by (simp add: Wave_write_header_form_def preserves_def)
  next
    case (Some t)
    with \<open>wave w = Some wv\<close> show ?thesis
      by (simp add: Wave_write_header_form_def preserves_def Let_def split: sum.splits)
  qed
qed

lemma header_length_more: "preserves BaseTTS.more (Wave_write_header_length w) w"
proof (cases "wave w")
  case None
  then show ?thesis by (simp add: Wave_write_header_length_def preserves_def)
next
  case (Some wv)
  then show ?thesis
    by (cases "wfile wv")
      (simp_all add: Wave_write_header_length_def preserves_def split: sum.splits)
qed

lemma start_stream_reading:
  fixes w :: ProcessTTS
  assumes "\<And>v. preserves reading (sel v) v"
  shows "preserves reading (BaseTTS_start_stream sel w) w"
proof -
  have "preserves reading (sel (cleanup w)) w"
    using assms [of "cleanup w"] more_fields(2) [OF cleanup_fields(7), of w]
    by (cases "sel (cleanup w)") (simp_all add: preserves_def)
  then show ?thesis
    unfolding start_stream_eq
    by (rule preserves_and_then) (rule preserves_more_reading [OF configure_more])
qed

lemma clear_old_reading: "preserves reading (ProcessTTS_clear_old avail w) w"
proof (cases "in_out w")
  case None
  then show ?thesis by (simp add: ProcessTTS_clear_old_def preserves_def)
next
  case (Some t)
  then show ?thesis
    by (cases "InOut_run (inp t) (heap w) (stream w)")
      (auto simp: ProcessTTS_clear_old_def preserves_def)
qed

lemma popen_create_more: "preserves BaseTTS.more (BaseTTS_popen_create w) w"
  by (cases "map_of (CMD w) (format w)") (simp_all add: BaseTTS_popen_create_def preserves_def)

lemma select_target_reading: "preserves reading (ProcessTTS_select_target avail w) w"
  unfolding ProcessTTS_select_target_def
  apply (rule preserves_and_then [OF clear_old_reading])
  subgoal for a s'
    apply (cases "format s' \<in> fst ` set (CMD s')")
     apply (simp_all add: preserves_Returns)
    apply (rule preserves_and_then [OF preserves_more_reading [OF popen_create_more]])
    subgoal for b s''
      by (cases "popen s''") (simp_all add: preserves_def)
    done
  done

lemma generate_end_reading:
  fixes w :: ProcessTTS
  shows "preserves reading (BaseTTS_generate_end in_time w) w"
  unfolding BaseTTS_generate_end_def wave_close_eq and_then_simps
  by (cases "tts_file w"; cases "popen w")
    (simp_all add: preserves_def Let_def Popen_wait_def split: prod.splits)

lemma in_generate_reading:
  assumes "preserves reading r w"
  shows "case in_generate r of
     Blocks \<Rightarrow> True
   | Raises err w' \<Rightarrow> reading w' = reading w
   | Returns x w' \<Rightarrow> reading w' = reading w"
  using assms by (cases r) (simp_all add: in_generate_def preserves_def)

lemma InOut_pass_reading: "preserves reading (InOut_pass w) w"
proof (cases "in_out w")
  case None
  then show ?thesis by (simp add: InOut_pass_def preserves_def)
next
  case (Some t)
  then show ?thesis
    by (cases "source_read (inp t) BUFF (heap w)")
      (auto simp: InOut_pass_def preserves_def)
qed

lemma say_reading: "preserves reading (BaseTTS_say req w) w"
  by (cases req) (simp add: BaseTTS_say_def preserves_def)

lemma say_wait_reading: "preserves reading (BaseTTS_say_wait t w) w"
  by (simp add: BaseTTS_say_wait_def preserves_def)

lemma step_reading:
  assumes "e \<noteq> Close"
  shows "case step e w of
     Blocks \<Rightarrow> True
   | Raises err w' \<Rightarrow> reading w' = reading w
   | Returns x w' \<Rightarrow> x = Some None \<or> reading w' = reading w"
proof (cases e)
  case Begin
  show ?thesis
  proof (cases "queue w")
    case Nil
    then show ?thesis unfolding Begin by simp
  next
    case (Cons data q)
    then show ?thesis unfolding Begin by (cases data) auto
  qed
next
  case (Announce avail rate)
  have "preserves reading
      (BaseTTS_start_stream (ProcessTTS_select_target avail) (w\<lparr>sample_rate := rate\<rparr>)) w"
    using start_stream_reading [where sel = "ProcessTTS_select_target avail" and w = "w\<lparr>sample_rate := rate\<rparr>",
        OF select_target_reading]
    by (cases "BaseTTS_start_stream (ProcessTTS_select_target avail) (w\<lparr>sample_rate := rate\<rparr>)")
      (simp_all add: preserves_def)
  from in_generate_reading [OF this] show ?thesis
    unfolding Announce step.simps
    by (cases "in_generate (BaseTTS_start_stream (ProcessTTS_select_target avail) (w\<lparr>sample_rate := rate\<rparr>))")
      simp_all
next
  case Header_tag
  from in_generate_reading [OF preserves_more_reading [OF header_tag_more [of w]]] show ?thesis
    unfolding Header_tag step.simps
    by (cases "in_generate (Wave_write_header_tag w)") simp_all
next
  case Header_form
  from in_generate_reading [OF preserves_more_reading [OF header_form_more [of "0xFFFFFFF" w]]] show ?thesis
    unfolding Header_form step.simps
    by (cases "in_generate (Wave_write_header_form 0xFFFFFFF w)") simp_all
next
  case Header_length
  have "preserves reading
      (and_then (Wave_write_header_length w) (\<lambda>_ w1. Returns True (w1\<lparr>wait := True\<rparr>))) w"
    by (rule preserves_and_then [OF preserves_more_reading [OF header_length_more [of w]]])
      (simp add: preserves_Returns)
  from in_generate_reading [OF this] show ?thesis
    unfolding Header_length step.simps
    by (cases "in_generate (and_then (Wave_write_header_length w) (\<lambda>_ w1. Returns True (w1\<lparr>wait := True\<rparr>)))")
      simp_all
next
  case (Chunk samples count)
  from in_generate_reading [OF preserves_more_reading [OF speech_callback_more [of samples count w]]] show ?thesis
    unfolding Chunk step.simps
    by (cases "in_generate (BaseTTS_speech_callback samples count w)") simp_all
next
  case (Finish in_time)
  from generate_end_reading [of in_time w] show ?thesis
    unfolding Finish step.simps
    by (cases "BaseTTS_generate_end in_time w")
      (simp_all add: and_then_simps finally_do_def preserves_def)
next
  case Relay
  from InOut_pass_reading [of w] show ?thesis
    unfolding Relay step.simps
    by (cases "InOut_pass w") (simp_all add: and_then_simps preserves_def)
next
  case (Say req)
  from say_reading [of req w] show ?thesis
    unfolding Say step.simps
    by (cases "BaseTTS_say req w") (simp_all add: and_then_simps preserves_def)
next
  case (Say_wait t)
  from say_wait_reading [of t w] show ?thesis
    unfolding Say_wait step.simps
    by (cases "BaseTTS_say_wait t w") (simp_all add: and_then_simps preserves_def)
next
  case Next
  show ?thesis
    unfolding Next step.simps
    by (cases "stream w") (simp_all add: ProcessTTS_iter_next_def and_then_simps)
next
  case Close
  with assms show ?thesis by simp
qed

lemma run_events_reading:
  assumes "run_events es w = Some (outs, w')" and "None \<notin> set outs" and "Close \<notin> set es"
  shows "reading w' = reading w"
  using assms
proof (induction es arbitrary: w outs)
  case Nil
  then show ?case by simp
next
  case (Cons e es)
  from Cons.prems(3) have ne: "e \<noteq> Close" and nes: "Close \<notin> set es" by auto
  show ?case
  proof (cases "step e w")
    case Blocks
    with Cons.prems show ?thesis by simp
  next
    case (Raises err w1)
    with Cons.prems have "run_events es w1 = Some (outs, w')" by simp
    from Cons.IH [OF this Cons.prems(2) nes] step_reading [OF ne, where w = w] Raises show ?thesis by simp
  next
    case (Returns x w1)
    show ?thesis
    proof (cases "run_events es w1")
      case None
      with Cons.prems(1) Returns show ?thesis by simp
    next
      case (Some r1)
      obtain outs1 w2 where r1: "r1 = (outs1, w2)" by (cases r1)
      from Cons.prems(1) Returns Some r1
      have o: "outs = (case x of None \<Rightarrow> [] | Some y \<Rightarrow> [y]) @ outs1" and w2: "w2 = w'"
        by simp_all
      from Some r1 w2 have r: "run_events es w1 = Some (outs1, w')" by simp
      from o Cons.prems(2) have n1: "None \<notin> set outs1" by simp
      have n2: "x \<noteq> Some None"
      proof
        assume "x = Some None"
        with o have "None \<in> set outs" by simp
        with Cons.prems(2) show False by simp
      qed
      from Cons.IH [OF r n1 nes] step_reading [OF ne, where w = w] Returns n2 show ?thesis by simp
    qed
  qed
qed

lemma first_idle_Some: "first_idle ws = Some i \<Longrightarrow> i < length ws \<and> \<not> ProcessTTS_busy (ws ! i)"
proof (induction ws arbitrary: i)
  case Nil
  then show ?case by simp
next
  case (Cons x ws)
  then show ?case
    by (cases "ProcessTTS_busy x") (auto split: if_splits)
qed

text \<open>
  The steps are the whole calls cut at their accesses to shared objects: the three
  writes of the header make up \<^verbatim>\<open>_write_header\<close>, the four steps of a rate callback make up
  \<^verbatim>\<open>_sr_callback\<close>, and when \<^verbatim>\<open>_generate\<close> of a process worker returns, the steps of the
  callbacks the engine made, run one after the other on the request at the head of
  \<^verbatim>\<open>_queue\<close>, leave the worker as the call did.
\<close>

lemma and_then_assoc:
  "and_then (and_then m f) g = and_then m (\<lambda>a s. and_then (f a s) g)"
  by (cases m) (simp_all add: and_then_simps)

lemma write_header_split:
  "Wave_write_write_header n w =
     and_then (Wave_write_header_tag w) (\<lambda>_ w1.
     and_then (Wave_write_header_form n w1) (\<lambda>_ w2. Wave_write_header_length w2))"
proof (cases "wave w")
  case None
  then show ?thesis
    by (simp add: Wave_write_write_header_def Wave_write_header_tag_def and_then_simps)
next
  case (Some wv)
  show ?thesis
  proof (cases "wfile wv")
    case None
    with Some show ?thesis
      by (simp add: Wave_write_write_header_def Wave_write_header_tag_def and_then_simps)
  next
    case (Some t)
    with \<open>wave w = Some wv\<close> show ?thesis
      by (simp add: Wave_write_write_header_def Wave_write_header_tag_def Wave_write_header_form_def
          Wave_write_header_length_def and_then_simps Let_def split: sum.splits)
  qed
qed

lemma sr_callback_split:
  "BaseTTS_sr_callback sel rate w =
     and_then (BaseTTS_start_stream sel (w\<lparr>sample_rate := rate\<rparr>)) (\<lambda>_ w1.
     and_then (Wave_write_header_tag w1) (\<lambda>_ w2.
     and_then (Wave_write_header_form 0xFFFFFFF w2) (\<lambda>_ w3.
     and_then (Wave_write_header_length w3) (\<lambda>_ w4. Returns True (w4\<lparr>wait := True\<rparr>)))))"
  by (simp add: BaseTTS_sr_callback_def write_header_split and_then_assoc)

lemma generate_split:
  "BaseTTS_generate engine in_time (utt, voice, fmt) w =
     and_then (engine voice utt (w\<lparr>format := fmt\<rparr>)) (\<lambda>_. BaseTTS_generate_end in_time)"
  by (cases "engine voice utt (w\<lparr>format := fmt\<rparr>)")
    (simp_all add: BaseTTS_generate_def BaseTTS_generate_end_def and_then_simps)

lemma run_events_append:
  "run_events (es @ fs) w =
     (case run_events es w of
        None \<Rightarrow> None
      | Some (outs, w1) \<Rightarrow>
          (case run_events fs w1 of None \<Rightarrow> None | Some (outs', w2) \<Rightarrow> Some (outs @ outs', w2)))"
proof (induction es arbitrary: w)
  case Nil
  show ?case by (cases "run_events fs w") auto
next
  case (Cons e es)
  show ?case
  proof (cases "step e w")
    case Blocks
    then show ?thesis by simp
  next
    case (Raises err w1)
    then show ?thesis by (simp add: Cons.IH)
  next
    case (Returns x w1)
    then show ?thesis
      by (cases "run_events es w1") (auto simp: Cons.IH split: option.splits)
  qed
qed

lemma and_then_Returns:
  assumes "and_then m k = Returns b s'"
  obtains a s where "m = Returns a s" and "k a s = Returns b s'"
  using assms by (cases m) (simp_all add: and_then_simps)

lemma callback_steps:
  assumes "callback (ProcessTTS_select_target a) c w = Returns flag w'"
  shows "run_events (steps_of a c) w = Some ([], w')"
proof (cases c)
  case (Announce_rate rate)
  from assms obtain u1 w1 where
    1: "BaseTTS_start_stream (ProcessTTS_select_target a) (w\<lparr>sample_rate := rate\<rparr>) = Returns u1 w1"
    and r1: "and_then (Wave_write_header_tag w1) (\<lambda>_ w2.
     and_then (Wave_write_header_form 0xFFFFFFF w2) (\<lambda>_ w3.
     and_then (Wave_write_header_length w3) (\<lambda>_ w4. Returns True (w4\<lparr>wait := True\<rparr>)))) = Returns flag w'"
    unfolding Announce_rate callback.simps sr_callback_split by (rule and_then_Returns)
  from r1 obtain u2 w2 where 2: "Wave_write_header_tag w1 = Returns u2 w2"
    and r2: "and_then (Wave_write_header_form 0xFFFFFFF w2) (\<lambda>_ w3.
     and_then (Wave_write_header_length w3) (\<lambda>_ w4. Returns True (w4\<lparr>wait := True\<rparr>))) = Returns flag w'"
    by (rule and_then_Returns)
  from r2 obtain u3 w3 where 3: "Wave_write_header_form 0xFFFFFFF w2 = Returns u3 w3"
    and r3: "and_then (Wave_write_header_length w3) (\<lambda>_ w4. Returns True (w4\<lparr>wait := True\<rparr>)) = Returns flag w'"
    by (rule and_then_Returns)
  show ?thesis
    unfolding Announce_rate
    by (simp add: 1 2 3 r3 in_generate_def)
next
  case (Deliver samples count)
  with assms show ?thesis by (simp add: in_generate_def)
qed

lemma engine_generate_steps:
  assumes "engine_generate (ProcessTTS_select_target a) script w = Returns () w'"
  shows "\<exists>calls. prefix calls script \<and> run_events (concat (map (steps_of a) calls)) w = Some ([], w')"
  using assms
proof (induction script arbitrary: w)
  case Nil
  then show ?case by simp
next
  case (Cons c script)
  from Cons.prems obtain flag w1 where
    c: "callback (ProcessTTS_select_target a) c w = Returns flag w1"
    and r: "(if flag then engine_generate (ProcessTTS_select_target a) script w1 else Returns () w1)
        = Returns () w'"
    unfolding engine_generate.simps by (rule and_then_Returns)
  show ?case
  proof (cases flag)
    case True
    with r have "engine_generate (ProcessTTS_select_target a) script w1 = Returns () w'" by simp
    from Cons.IH [OF this] obtain calls where p: "prefix calls script"
      and e: "run_events (concat (map (steps_of a) calls)) w1 = Some ([], w')" by blast
    have "run_events (concat (map (steps_of a) (c # calls))) w = Some ([], w')"
      by (simp add: run_events_append callback_steps [OF c] e)
    with p show ?thesis by (intro exI [of _ "c # calls"]) simp
  next
    case False
    with r have "w1 = w'" by simp
    with callback_steps [OF c] have "run_events (concat (map (steps_of a) [c])) w = Some ([], w')"
      by simp
    then show ?thesis by (intro exI [of _ "[c]"]) simp
  qed
qed

lemma generate_as_steps:
  assumes "ProcessTTS_generate (scripted (ProcessTTS_select_target a) script) in_time req w
      = Returns () w'"
  shows "\<exists>calls. prefix calls script \<and>
     run_events (generate_steps a calls in_time) (w\<lparr>queue := Some req # queue w\<rparr>) = Some ([], w')"
proof -
  obtain utt voice fmt where req: "req = (utt, voice, fmt)" by (cases req)
  from assms obtain w2 where
    g: "BaseTTS_generate (scripted (ProcessTTS_select_target a) script) in_time req w = Returns () w2"
    and w': "w' = w2\<lparr>processing := True\<rparr>"
    by (cases "BaseTTS_generate (scripted (ProcessTTS_select_target a) script) in_time req w")
      (simp_all add: ProcessTTS_generate_def finally_do_def)
  from g obtain u w1 where
    e: "engine_generate (ProcessTTS_select_target a) script (w\<lparr>format := fmt\<rparr>) = Returns u w1"
    and f: "BaseTTS_generate_end in_time w1 = Returns () w2"
    unfolding req generate_split scripted_def by (rule and_then_Returns)
  from engine_generate_steps [of a script "w\<lparr>format := fmt\<rparr>" w1] e obtain calls
    where p: "prefix calls script"
      and c: "run_events (concat (map (steps_of a) calls)) (w\<lparr>format := fmt\<rparr>) = Some ([], w1)"
    by auto
  have "run_events (generate_steps a calls in_time) (w\<lparr>queue := Some req # queue w\<rparr>) = Some ([], w')"
    by (simp add: generate_steps_def req run_events_append c f finally_do_def and_then_simps w')
  with p show ?thesis by blast
qed

text \<open>
  C8, as stated, fails.  A worker is claimed and serves a native request.  The relay thread
  passes the tag of the header on, the consumer takes it from the iterator, and, when the
  request has been generated and relayed, closes the iterator without another
  \<^verbatim>\<open>next()\<close> (it leaves its loop, or drops the iterator).  \<^verbatim>\<open>finally\<close> of \<^verbatim>\<open>_iter_me\<close> clears
  \<^verbatim>\<open>_reading\<close> while the rest of the stream and the empty chunk are on the stream queue,
  unread: \<^verbatim>\<open>busy()\<close> is false, and the loop of \<^verbatim>\<open>MultiTTS.say\<close> picks the worker.
\<close>

theorem early_close_counterexample:
  "(case run_events
           [Say (''hi'', ''anna'', ''wav''), Begin, Announce 0 24000, Header_tag, Relay, Header_form,
            Header_length, Say_wait False, Next, Chunk [1, 2] 1, Finish True, Relay, Relay, Close]
           (ProcessTTS_set_busy (ProcessTTS_init [])) of
      None \<Rightarrow> False
    | Some (outs, w') \<Rightarrow>
        outs = [Some (ascii ''RIFF'')] \<and>
        stream w' = [concat (tl (header_chunks 24000)) @ [1, 2], []] \<and>
        \<not> ProcessTTS_busy w' \<and> first_idle [w'] = Some 0)"
  by code_simp

text \<open>
  C8, amended.  A process worker has just been claimed by \<^verbatim>\<open>set_busy\<close>.  Whatever the worker
  process, its relay thread and the consumer then do, step by step and in any order, as
  long as no \<^verbatim>\<open>next()\<close> on the iterator has met its end and the consumer has not closed
  or dropped the iterator: \<^verbatim>\<open>_reading\<close> is set and \<^verbatim>\<open>busy()\<close> is true, and the loop of
  \<^verbatim>\<open>MultiTTS.say\<close> does not pick the worker, wherever it stands in the pool.  The iterator
  ends in two ways, and \<^verbatim>\<open>finally\<close> clears \<^verbatim>\<open>_reading\<close> in both: a \<^verbatim>\<open>next()\<close> that takes the
  empty chunk from the stream queue, and the close of the suspended iterator, which
  takes nothing from the queue.  After such a close a worker whose \<^verbatim>\<open>_processing\<close> is set
  is not busy, whatever is left on the stream queue, and the loop of \<^verbatim>\<open>say\<close> picks it.
\<close>

theorem busy_until_iterator_ends:
  "(run_events es (ProcessTTS_set_busy w) = Some (outs, w') \<and> None \<notin> set outs \<and> Close \<notin> set es \<longrightarrow>
      reading w' \<and> ProcessTTS_busy w' \<and> first_idle (before @ w' # rest) \<noteq> Some (length before)) \<and>
   (ProcessTTS_iter_next v = Returns None v' \<longrightarrow> \<not> reading v' \<and> stream v = [] # stream v') \<and>
   \<not> reading (ProcessTTS_iter_close v) \<and> stream (ProcessTTS_iter_close v) = stream v \<and>
   (processing v \<longrightarrow>
      \<not> ProcessTTS_busy (ProcessTTS_iter_close v) \<and>
      first_idle (ProcessTTS_iter_close v # rest) = Some 0)"
proof (intro conjI impI)
  assume a: "run_events es (ProcessTTS_set_busy w) = Some (outs, w') \<and> None \<notin> set outs \<and> Close \<notin> set es"
  then have "reading w' = reading (ProcessTTS_set_busy w)"
    by (intro run_events_reading [of es _ outs]) simp_all
  then show r: "reading w'" by (simp add: ProcessTTS_set_busy_def)
  then show b: "ProcessTTS_busy w'" by (simp add: ProcessTTS_busy_def)
  show "first_idle (before @ w' # rest) \<noteq> Some (length before)"
  proof
    assume "first_idle (before @ w' # rest) = Some (length before)"
    from first_idle_Some [OF this] b show False by simp
  qed
next
  assume n: "ProcessTTS_iter_next v = Returns None v'"
  then show "\<not> reading v'"
    by (cases "stream v") (auto simp: ProcessTTS_iter_next_def split: if_splits)
  from n show "stream v = [] # stream v'"
    by (cases "stream v") (auto simp: ProcessTTS_iter_next_def split: if_splits)
next
  show "\<not> reading (ProcessTTS_iter_close v)" by (simp add: ProcessTTS_iter_close_def)
  show "stream (ProcessTTS_iter_close v) = stream v" by (simp add: ProcessTTS_iter_close_def)
next
  assume "processing v"
  then show "\<not> ProcessTTS_busy (ProcessTTS_iter_close v)"
    by (simp add: ProcessTTS_iter_close_def ProcessTTS_busy_def)
  then show "first_idle (ProcessTTS_iter_close v # rest) = Some 0" by simp
qed

theorem busy_until_iterator_ends_witness:
  "map_option fst
     (run_events
        [Say (''hi'', ''anna'', ''wav''), Begin, Announce 0 24000, Header_tag, Relay, Header_form,
         Header_length, Say_wait False, Next, Chunk [1, 2] 1, Finish True, Relay, Next]
        (ProcessTTS_set_busy (ProcessTTS_init [])))
     = Some [Some (ascii ''RIFF''), Some (concat (tl (header_chunks 24000)) @ [1, 2])] \<and>
   None \<notin> set [Some (ascii ''RIFF''), Some (concat (tl (header_chunks 24000)) @ [1, 2])] \<and>
   Close \<notin> set [Say (''hi'', ''anna'', ''wav''), Begin, Announce 0 24000, Header_tag, Relay, Header_form,
         Header_length, Say_wait False, Next, Chunk [1, 2] 1, Finish True, Relay, Next] \<and>
   (case run_events
        [Say (''hi'', ''anna'', ''wav''), Begin, Announce 0 24000, Header_tag, Relay, Header_form,
         Header_length, Say_wait False, Next, Chunk [1, 2] 1, Finish True, Relay, Next]
        (ProcessTTS_set_busy (ProcessTTS_init [])) of
      None \<Rightarrow> False
    | Some (outs, w') \<Rightarrow>
        processing w' \<and> reading w' \<and> ProcessTTS_busy w' \<and> first_idle ([] @ w' # []) \<noteq> Some (length [])) \<and>
   ProcessTTS_iter_next ((ProcessTTS_set_busy (ProcessTTS_init []))\<lparr>stream := [[]]\<rparr>)
     = Returns None ((ProcessTTS_set_busy (ProcessTTS_init []))\<lparr>stream := [], reading := False\<rparr>) \<and>
   \<not> reading ((ProcessTTS_set_busy (ProcessTTS_init []))\<lparr>stream := [], reading := False\<rparr>) \<and>
   processing ((ProcessTTS_init [])\<lparr>reading := True, stream := [[1, 2], []]\<rparr>) \<and>
   \<not> ProcessTTS_busy (ProcessTTS_iter_close ((ProcessTTS_init [])\<lparr>reading := True, stream := [[1, 2], []]\<rparr>)) \<and>
   stream (ProcessTTS_iter_close ((ProcessTTS_init [])\<lparr>reading := True, stream := [[1, 2], []]\<rparr>))
     = [[1, 2], []] \<and>
   first_idle (ProcessTTS_iter_close ((ProcessTTS_init [])\<lparr>reading := True, stream := [[1, 2], []]\<rparr>) # [])
     = Some 0"
proof -
  let ?es = "[Say (''hi'', ''anna'', ''wav''), Begin, Announce 0 24000, Header_tag, Relay, Header_form,
         Header_length, Say_wait False, Next, Chunk [1, 2] 1, Finish True, Relay, Next]"
  let ?w = "ProcessTTS_init []"
  let ?outs = "[Some (ascii ''RIFF''), Some (concat (tl (header_chunks 24000)) @ [1, 2 :: 8 word])]"
  let ?v = "(ProcessTTS_set_busy (ProcessTTS_init []))\<lparr>stream := [[]]\<rparr>"
  let ?v' = "(ProcessTTS_set_busy (ProcessTTS_init []))\<lparr>stream := [], reading := False\<rparr>"
  let ?u = "(ProcessTTS_init [])\<lparr>reading := True, stream := [[1, 2], []]\<rparr>"
  have e: "map_option fst (run_events ?es (ProcessTTS_set_busy ?w)) = Some ?outs"
    by code_simp
  have p: "map_option (\<lambda>r. processing (snd r)) (run_events ?es (ProcessTTS_set_busy ?w)) = Some True"
    by code_simp
  from e obtain r where r: "run_events ?es (ProcessTTS_set_busy ?w) = Some r" by blast
  obtain outs w' where rr: "r = (outs, w')" by (cases r)
  from e r rr have o: "outs = ?outs" by simp
  from r rr o have run: "run_events ?es (ProcessTTS_set_busy ?w) = Some (?outs, w')" by simp
  have n: "None \<notin> set ?outs" by simp
  have c: "Close \<notin> set ?es" by simp
  from p run have pw: "processing w'" by simp
  have i: "ProcessTTS_iter_next ?v = Returns None ?v'"
    by (simp add: ProcessTTS_iter_next_def)
  have pu: "processing ?u" by (simp add: ProcessTTS_init_def)
  have su: "stream (ProcessTTS_iter_close ?u) = [[1, 2], []]"
    by (simp add: ProcessTTS_iter_close_def)
  note t1 = busy_until_iterator_ends [where es = ?es and w = ?w and outs = ?outs and w' = w'
      and before = "[]" and rest = "[]" and v = ?v and v' = ?v']
  note t2 = busy_until_iterator_ends [where v = ?u and rest = "[]"]
  from t1 [THEN conjunct1, rule_format, OF conjI [OF run conjI [OF n c]]]
  have a1: "reading w' \<and> ProcessTTS_busy w' \<and> first_idle ([] @ w' # []) \<noteq> Some (length [])"
    by simp
  from t1 [THEN conjunct2, THEN conjunct1, rule_format, OF i] have a2: "\<not> reading ?v'" by simp
  from t2 [THEN conjunct2, THEN conjunct2, THEN conjunct2, THEN conjunct2, rule_format, OF pu]
  have a3: "\<not> ProcessTTS_busy (ProcessTTS_iter_close ?u)"
    and a4: "first_idle (ProcessTTS_iter_close ?u # []) = Some 0" by simp_all
  from a1 pw have a5: "case run_events ?es (ProcessTTS_set_busy ?w) of
      None \<Rightarrow> False
    | Some (outs, w') \<Rightarrow>
        processing w' \<and> reading w' \<and> ProcessTTS_busy w' \<and> first_idle ([] @ w' # []) \<noteq> Some (length [])"
    unfolding run by simp
  from e n c a5 i a2 pu a3 su a4 show ?thesis by (intro conjI)
qed

subsection \<open>The stream of a process worker\<close>

text \<open>
  A worker as a consumer leaves it who closes the iterator after the header of a native
  request: the request is generated, its last chunk and the empty chunk are in the
  FakeFile, and the relay thread has not taken them yet.
\<close>

lemma left_by_early_close:
  "map_option snd
     (run_events
        [Say (''hi'', ''anna'', ''wav''), Begin, Announce 0 24000, Header_tag, Header_form,
         Header_length, Relay, Say_wait False, Next, Chunk [1, 2] 1, Finish True, Close]
        (ProcessTTS_set_busy (ProcessTTS_init [])))
   = Some ((ProcessTTS_init [])\<lparr>tts_file := Some 0,
           heap := \<lparr>procs = [], files = [\<lparr>items = [[1, 2], []], open_flag = True\<rparr>]\<rparr>,
           in_out := Some \<lparr>inp = Fake 0, alive = True\<rparr>\<rparr>)"
  by code_simp

text \<open>
  C10 fails: the loop of \<^verbatim>\<open>_clear_old\<close> leaves chunks on the stream queue when
  \<^verbatim>\<open>get_nowait()\<close> raises \<^verbatim>\<open>queue.Empty\<close>.  What the loop leaves is the queue without its
  first \<open>avail\<close> chunks, \<open>avail\<close> being the calls that found a chunk.  On the worker above,
  the next native request joins the relay thread, which puts the last chunk of the old
  request and its empty chunk on the stream queue.  When the first \<^verbatim>\<open>get_nowait()\<close>
  raises, both stay: after \<^verbatim>\<open>_generate\<close> the first \<^verbatim>\<open>next()\<close> of the new consumer gives the
  bytes of the old request, and the second meets the old empty chunk and ends the
  iteration.  When both calls find their chunk, the queue is empty, and after a pass of
  the new relay thread the consumer is given the header and the bytes of its own request.
\<close>

theorem stale_chunks_reach_next_consumer:
  "clear_loop avail q = drop avail q \<and>
   returns
     (ProcessTTS_generate (scripted (ProcessTTS_select_target 0) [Announce_rate 24000, Deliver [3, 4] 1])
        True (''ho'', ''anna'', ''wav'')
        ((ProcessTTS_init [])\<lparr>tts_file := Some 0,
           heap := \<lparr>procs = [], files = [\<lparr>items = [[1, 2], []], open_flag = True\<rparr>]\<rparr>,
           in_out := Some \<lparr>inp = Fake 0, alive = True\<rparr>\<rparr>))
     (\<lambda>u w1. stream w1 = [[1, 2], []] \<and>
        returns (ProcessTTS_iter_next w1)
          (\<lambda>x w2. x = Some [1, 2] \<and>
             returns (ProcessTTS_iter_next w2) (\<lambda>y w3. y = None \<and> \<not> reading w3))) \<and>
   returns
     (ProcessTTS_generate (scripted (ProcessTTS_select_target 2) [Announce_rate 24000, Deliver [3, 4] 1])
        True (''ho'', ''anna'', ''wav'')
        ((ProcessTTS_init [])\<lparr>tts_file := Some 0,
           heap := \<lparr>procs = [], files = [\<lparr>items = [[1, 2], []], open_flag = True\<rparr>]\<rparr>,
           in_out := Some \<lparr>inp = Fake 0, alive = True\<rparr>\<rparr>))
     (\<lambda>u w1. stream w1 = [] \<and>
        returns (InOut_pass w1)
          (\<lambda>u w2. returns (ProcessTTS_iter_next w2)
             (\<lambda>x w3. x = Some (concat (header_chunks 24000) @ [3, 4]))))"
proof -
  have a: "clear_loop avail q = drop avail q"
    by (induction avail q rule: clear_loop.induct) simp_all
  have b: "returns
     (ProcessTTS_generate (scripted (ProcessTTS_select_target 0) [Announce_rate 24000, Deliver [3, 4] 1])
        True (''ho'', ''anna'', ''wav'')
        ((ProcessTTS_init [])\<lparr>tts_file := Some 0,
           heap := \<lparr>procs = [], files = [\<lparr>items = [[1, 2], []], open_flag = True\<rparr>]\<rparr>,
           in_out := Some \<lparr>inp = Fake 0, alive = True\<rparr>\<rparr>))
     (\<lambda>u w1. stream w1 = [[1, 2], []] \<and>
        returns (ProcessTTS_iter_next w1)
          (\<lambda>x w2. x = Some [1, 2] \<and>
             returns (ProcessTTS_iter_next w2) (\<lambda>y w3. y = None \<and> \<not> reading w3)))"
    by code_simp
  have c: "returns
     (ProcessTTS_generate (scripted (ProcessTTS_select_target 2) [Announce_rate 24000, Deliver [3, 4] 1])
        True (''ho'', ''anna'', ''wav'')
        ((ProcessTTS_init [])\<lparr>tts_file := Some 0,
           heap := \<lparr>procs = [], files = [\<lparr>items = [[1, 2], []], open_flag = True\<rparr>]\<rparr>,
           in_out := Some \<lparr>inp = Fake 0, alive = True\<rparr>\<rparr>))
     (\<lambda>u w1. stream w1 = [] \<and>
        returns (InOut_pass w1)
          (\<lambda>u w2. returns (ProcessTTS_iter_next w2)
             (\<lambda>x w3. x = Some (concat (header_chunks 24000) @ [3, 4]))))"
    by code_simp
  from a b c show ?thesis by (intro conjI)
qed

subsection \<open>Dispatch by the pool\<close>

lemma say_loop_dispatch:
  assumes "\<And>j. s \<le> j \<Longrightarrow> j < k \<Longrightarrow> first_idle (workers (pool_at env j m)) = None"
    and "\<And>j. s \<le> j \<Longrightarrow> j < k \<Longrightarrow> snd (env j) \<le> e"
    and "first_idle (workers (pool_at env k m)) = Some i" and "s \<le> k"
  shows "say_loop e env s (pool_at env s m) =
     Some (Returns i ((pool_at env k m)\<lparr>workers := (workers (pool_at env k m))
                         [i := ProcessTTS_set_busy (workers (pool_at env k m) ! i)]\<rparr>))"
  using assms
proof (induction "k - s" arbitrary: s)
  case 0
  then have "s = k" by simp
  with 0(4) show ?case
    by (subst say_loop.simps) simp
next
  case (Suc d)
  then have sk: "s < k" by simp
  have n: "first_idle (workers (pool_at env s m)) = None" and c: "snd (env s) \<le> e"
    using Suc.prems(1,2) [of s] sk by simp_all
  have "say_loop e env (Suc s) (pool_at env (Suc s) m) =
     Some (Returns i ((pool_at env k m)\<lparr>workers := (workers (pool_at env k m))
                         [i := ProcessTTS_set_busy (workers (pool_at env k m) ! i)]\<rparr>))"
    using Suc.hyps(2) Suc.prems sk by (intro Suc.hyps(1)) simp_all
  with n c show ?case
    by (subst say_loop.simps) (simp add: case_prod_beta)
qed

lemma say_loop_timeout:
  assumes "\<And>j. s \<le> j \<Longrightarrow> j \<le> k \<Longrightarrow> first_idle (workers (pool_at env j m)) = None"
    and "\<And>j. s \<le> j \<Longrightarrow> j < k \<Longrightarrow> snd (env j) \<le> e"
    and "e < snd (env k)" and "s \<le> k"
  shows "say_loop e env s (pool_at env s m) =
     Some (Raises (RuntimeError ''Still busy'') (pool_at env (Suc k) m))"
  using assms
proof (induction "k - s" arbitrary: s)
  case 0
  then have "s = k" by simp
  with 0(2) [of k] 0(4) show ?case
    by (subst say_loop.simps) (simp add: case_prod_beta)
next
  case (Suc d)
  then have sk: "s < k" by simp
  have n: "first_idle (workers (pool_at env s m)) = None" and c: "snd (env s) \<le> e"
    using Suc.prems(1,2) [of s] sk by simp_all
  have "say_loop e env (Suc s) (pool_at env (Suc s) m) =
     Some (Raises (RuntimeError ''Still busy'') (pool_at env (Suc k) m))"
    using Suc.hyps(2) Suc.prems sk by (intro Suc.hyps(1)) simp_all
  with n c show ?case
    by (subst say_loop.simps) (simp add: case_prod_beta)
qed

lemma say_loop_ends:
  assumes "e < snd (env k)"
  shows "\<exists>r. say_loop e env 0 m = Some r \<and> r \<noteq> Blocks"
proof -
  define k0 where "k0 = (LEAST j. e < snd (env j))"
  have k0: "e < snd (env k0)" and least: "\<And>j. j < k0 \<Longrightarrow> snd (env j) \<le> e"
    unfolding k0_def using assms by (auto intro: LeastI dest: not_less_Least simp: not_less)
  show ?thesis
  proof (cases "\<exists>j\<le>k0. first_idle (workers (pool_at env j m)) \<noteq> None")
    case True
    define j0 where "j0 = (LEAST j. first_idle (workers (pool_at env j m)) \<noteq> None)"
    from True have j0: "first_idle (workers (pool_at env j0 m)) \<noteq> None"
      and "j0 \<le> k0"
      and jl: "\<And>j. j < j0 \<Longrightarrow> first_idle (workers (pool_at env j m)) = None"
      unfolding j0_def
      by (auto intro: LeastI Least_le [THEN order_trans] dest: not_less_Least)
    from j0 obtain i where "first_idle (workers (pool_at env j0 m)) = Some i" by auto
    from say_loop_dispatch [of 0 j0 env m e i, OF jl least this] \<open>j0 \<le> k0\<close>
    show ?thesis by simp
  next
    case False
    then have "\<And>j. j \<le> k0 \<Longrightarrow> first_idle (workers (pool_at env j m)) = None" by auto
    from say_loop_timeout [of 0 k0 env m e, OF this least k0] show ?thesis by simp
  qed
qed

lemma MultiTTS_say_eq:
  assumes "\<not> lock m" and "say_loop (t0 + TIMEOUT) env 0 (m\<lparr>lock := True\<rparr>) = Some r"
  shows "MultiTTS_say t0 env req m =
     (case r of
        Blocks \<Rightarrow> Blocks
      | Raises e m1 \<Rightarrow> Raises e (m1\<lparr>lock := False\<rparr>)
      | Returns i m1 \<Rightarrow> Returns (i, req) (m1\<lparr>lock := False\<rparr>))"
  using assms by (cases r) (simp_all add: MultiTTS_say_def finally_do_def and_then_def)


lemma pool_at_unchanged:
  assumes "\<And>j. j < k \<Longrightarrow> fst (env j) = (\<lambda>p. p)"
  shows "pool_at env k m = m"
  using assms by (induction k) simp_all

text \<open>
  C4, as stated, fails.  A pool of one worker, which is busy.  The first sleep starts 0.03
  seconds after the clock was read, and every pass of the loop takes 0.05 seconds.  The
  worker becomes free during the sleep of pass 599, which starts at 29.98 seconds, before
  the timeout; the clock reads 30.03 seconds after that sleep, and \<^verbatim>\<open>say\<close> raises
  \<^verbatim>\<open>RuntimeError('Still busy')\<close> without another scan.  The worker is left free.
\<close>

theorem say_admission_counterexample:
  "MultiTTS_say 0
      (\<lambda>j. (\<lambda>p. if j = 599 then p\<lparr>workers := [ProcessTTS_init []]\<rparr> else p, 3 / 100 + (real j + 1) / 20))
      (''hi'', ''anna'', ''wav'')
      \<lparr>workers = [ProcessTTS_set_busy (ProcessTTS_init [])], lock = False, pool_work = True\<rparr>
     = Raises (RuntimeError ''Still busy'')
         \<lparr>workers = [ProcessTTS_init []], lock = False, pool_work = True\<rparr> \<and>
   \<not> ProcessTTS_busy (ProcessTTS_init []) \<and>
   3 / 100 + (real 598 + 1) / 20 < 0 + TIMEOUT"
proof -
  let ?env = "\<lambda>j. (\<lambda>p :: MultiTTS. if j = 599 then p\<lparr>workers := [ProcessTTS_init []]\<rparr> else p,
      3 / 100 + (real j + 1) / 20)"
  let ?m = "\<lparr>workers = [ProcessTTS_set_busy (ProcessTTS_init [])], lock = True, pool_work = True\<rparr>"
  have p: "pool_at ?env j ?m = ?m" if "j \<le> 599" for j
    using that by (intro pool_at_unchanged) auto
  have b: "first_idle (workers ?m) = None"
    by (simp add: ProcessTTS_busy_def ProcessTTS_set_busy_def)
  have q: "pool_at ?env (Suc 599) ?m = ?m\<lparr>workers := [ProcessTTS_init []]\<rparr>"
    unfolding pool_at.simps(2) p [OF order_refl] by simp
  have "say_loop (0 + TIMEOUT) ?env 0 (pool_at ?env 0 ?m) =
      Some (Raises (RuntimeError ''Still busy'') (pool_at ?env (Suc 599) ?m))"
  proof (rule say_loop_timeout)
    fix j :: nat
    assume "j \<le> 599"
    with p [of j] b show "first_idle (workers (pool_at ?env j ?m)) = None" by simp
  next
    fix j :: nat
    assume "j < 599"
    then have "real j + 1 \<le> 599" by simp
    then have "(real j + 1) / 20 \<le> 599 / 20" by (rule divide_right_mono) simp
    then have "3 / 100 + (real j + 1) / 20 \<le> 3 / 100 + 599 / 20" by (rule add_left_mono)
    also have "\<dots> \<le> 30" by simp
    finally have "3 / 100 + (real j + 1) / 20 \<le> 30" .
    then show "snd (?env j) \<le> 0 + TIMEOUT" by (simp add: TIMEOUT_def)
  next
    show "0 + TIMEOUT < snd (?env 599)" by (simp add: TIMEOUT_def)
  qed simp
  then have l: "say_loop (0 + TIMEOUT) ?env 0 ?m =
      Some (Raises (RuntimeError ''Still busy'') (?m\<lparr>workers := [ProcessTTS_init []]\<rparr>))"
    unfolding q pool_at.simps(1) .
  have "MultiTTS_say 0 ?env (''hi'', ''anna'', ''wav'')
      \<lparr>workers = [ProcessTTS_set_busy (ProcessTTS_init [])], lock = False, pool_work = True\<rparr>
     = Raises (RuntimeError ''Still busy'')
         \<lparr>workers = [ProcessTTS_init []], lock = False, pool_work = True\<rparr>"
    using MultiTTS_say_eq [where m = "\<lparr>workers = [ProcessTTS_set_busy (ProcessTTS_init [])], lock = False, pool_work = True\<rparr>"
        and ?t0.0 = 0 and env = ?env and req = "(''hi'', ''anna'', ''wav'')"] l
    by simp
  moreover have "\<not> ProcessTTS_busy (ProcessTTS_init [])"
    by (simp add: ProcessTTS_busy_def ProcessTTS_init_def)
  moreover have "3 / 100 + (real 598 + 1) / 20 < 0 + TIMEOUT" by (simp add: TIMEOUT_def)
  ultimately show ?thesis by (intro conjI)
qed

text \<open>
  C4, amended.  \<^verbatim>\<open>say\<close> of a pool whose lock is free; \<open>t0\<close> is the reading of the clock after
  the lock was taken, and a pass of the loop is a scan of the workers, a sleep and a
  reading.
  \<^item> If every scan up to pass \<open>k\<close> finds every worker busy, the readings before pass \<open>k\<close>
    are within \<open>t0 + TIMEOUT\<close> and the reading of pass \<open>k\<close> is beyond it, the call raises
    \<^verbatim>\<open>RuntimeError('Still busy')\<close> at pass \<open>k\<close>, with the lock released and no worker marked:
    there is no scan after the last sleep, and a worker that became free during it is
    left free.
  \<^item> If the scans before pass \<open>k\<close> find every worker busy, with readings within the
    timeout, and the scan of pass \<open>k\<close> finds a worker that is not busy, \<open>i\<close> being the first,
    the call marks that worker busy, returns the context manager of its \<^verbatim>\<open>say\<close>, not yet
    entered, and releases the lock; nothing is put on the worker's queues, and nothing
    else in the pool is changed by the call.
  \<^item> If each sleep takes its 0.05 seconds at least, the call does not go on for ever.
\<close>

theorem say_admission:
  "(\<not> lock m \<and> (\<forall>j\<le>k. first_idle (workers (pool_at env j (m\<lparr>lock := True\<rparr>))) = None) \<and>
    (\<forall>j<k. snd (env j) \<le> t0 + TIMEOUT) \<and> t0 + TIMEOUT < snd (env k) \<longrightarrow>
      MultiTTS_say t0 env req m =
        Raises (RuntimeError ''Still busy'') ((pool_at env (Suc k) (m\<lparr>lock := True\<rparr>))\<lparr>lock := False\<rparr>) \<and>
      (first_idle (workers (pool_at env (Suc k) (m\<lparr>lock := True\<rparr>))) = Some n \<longrightarrow>
         \<not> ProcessTTS_busy (workers ((pool_at env (Suc k) (m\<lparr>lock := True\<rparr>))\<lparr>lock := False\<rparr>) ! n))) \<and>
   (\<not> lock m \<and> (\<forall>j<k. first_idle (workers (pool_at env j (m\<lparr>lock := True\<rparr>))) = None) \<and>
    (\<forall>j<k. snd (env j) \<le> t0 + TIMEOUT) \<and>
    first_idle (workers (pool_at env k (m\<lparr>lock := True\<rparr>))) = Some i \<longrightarrow>
      MultiTTS_say t0 env req m =
        Returns (i, req)
          ((pool_at env k (m\<lparr>lock := True\<rparr>))
             \<lparr>workers := (workers (pool_at env k (m\<lparr>lock := True\<rparr>)))
                [i := ProcessTTS_set_busy (workers (pool_at env k (m\<lparr>lock := True\<rparr>)) ! i)],
              lock := False\<rparr>) \<and>
      i < length (workers (pool_at env k (m\<lparr>lock := True\<rparr>))) \<and>
      \<not> ProcessTTS_busy (workers (pool_at env k (m\<lparr>lock := True\<rparr>)) ! i) \<and>
      ProcessTTS_busy (ProcessTTS_set_busy (workers (pool_at env k (m\<lparr>lock := True\<rparr>)) ! i)) \<and>
      queue (ProcessTTS_set_busy (workers (pool_at env k (m\<lparr>lock := True\<rparr>)) ! i))
        = queue (workers (pool_at env k (m\<lparr>lock := True\<rparr>)) ! i) \<and>
      stream (ProcessTTS_set_busy (workers (pool_at env k (m\<lparr>lock := True\<rparr>)) ! i))
        = stream (workers (pool_at env k (m\<lparr>lock := True\<rparr>)) ! i)) \<and>
   (\<not> lock m \<and> (\<forall>j. t0 + (real j + 1) / 20 \<le> snd (env j)) \<longrightarrow>
      MultiTTS_say t0 env req m \<noteq> Blocks)"
proof -
  let ?m = "m\<lparr>lock := True\<rparr>"
  have a: "MultiTTS_say t0 env req m =
        Raises (RuntimeError ''Still busy'') ((pool_at env (Suc k) ?m)\<lparr>lock := False\<rparr>) \<and>
      (first_idle (workers (pool_at env (Suc k) ?m)) = Some n \<longrightarrow>
         \<not> ProcessTTS_busy (workers ((pool_at env (Suc k) ?m)\<lparr>lock := False\<rparr>) ! n))"
    if h: "\<not> lock m \<and> (\<forall>j\<le>k. first_idle (workers (pool_at env j ?m)) = None) \<and>
      (\<forall>j<k. snd (env j) \<le> t0 + TIMEOUT) \<and> t0 + TIMEOUT < snd (env k)"
  proof -
    from h have l: "\<not> lock m" and n: "\<forall>j\<le>k. first_idle (workers (pool_at env j ?m)) = None"
      and c: "\<forall>j<k. snd (env j) \<le> t0 + TIMEOUT" and t: "t0 + TIMEOUT < snd (env k)"
      by simp_all
    have "say_loop (t0 + TIMEOUT) env 0 (pool_at env 0 ?m) =
        Some (Raises (RuntimeError ''Still busy'') (pool_at env (Suc k) ?m))"
      using n c t by (intro say_loop_timeout) simp_all
    then have "say_loop (t0 + TIMEOUT) env 0 ?m =
        Some (Raises (RuntimeError ''Still busy'') (pool_at env (Suc k) ?m))"
      by simp
    from MultiTTS_say_eq [OF l this]
    have 1: "MultiTTS_say t0 env req m =
        Raises (RuntimeError ''Still busy'') ((pool_at env (Suc k) ?m)\<lparr>lock := False\<rparr>)"
      by simp
    have 2: "\<not> ProcessTTS_busy (workers ((pool_at env (Suc k) ?m)\<lparr>lock := False\<rparr>) ! n)"
      if "first_idle (workers (pool_at env (Suc k) ?m)) = Some n"
      using first_idle_Some [OF that] by simp
    from 1 2 show ?thesis by blast
  qed
  have b: "MultiTTS_say t0 env req m =
        Returns (i, req)
          ((pool_at env k ?m)
             \<lparr>workers := (workers (pool_at env k ?m))
                [i := ProcessTTS_set_busy (workers (pool_at env k ?m) ! i)],
              lock := False\<rparr>) \<and>
      i < length (workers (pool_at env k ?m)) \<and>
      \<not> ProcessTTS_busy (workers (pool_at env k ?m) ! i) \<and>
      ProcessTTS_busy (ProcessTTS_set_busy (workers (pool_at env k ?m) ! i)) \<and>
      queue (ProcessTTS_set_busy (workers (pool_at env k ?m) ! i))
        = queue (workers (pool_at env k ?m) ! i) \<and>
      stream (ProcessTTS_set_busy (workers (pool_at env k ?m) ! i))
        = stream (workers (pool_at env k ?m) ! i)"
    if h: "\<not> lock m \<and> (\<forall>j<k. first_idle (workers (pool_at env j ?m)) = None) \<and>
      (\<forall>j<k. snd (env j) \<le> t0 + TIMEOUT) \<and>
      first_idle (workers (pool_at env k ?m)) = Some i"
  proof -
    from h have l: "\<not> lock m" and n: "\<forall>j<k. first_idle (workers (pool_at env j ?m)) = None"
      and c: "\<forall>j<k. snd (env j) \<le> t0 + TIMEOUT"
      and f: "first_idle (workers (pool_at env k ?m)) = Some i"
      by simp_all
    have "say_loop (t0 + TIMEOUT) env 0 (pool_at env 0 ?m) =
        Some (Returns i ((pool_at env k ?m)\<lparr>workers := (workers (pool_at env k ?m))
                         [i := ProcessTTS_set_busy (workers (pool_at env k ?m) ! i)]\<rparr>))"
      using n c f by (intro say_loop_dispatch) simp_all
    then have "say_loop (t0 + TIMEOUT) env 0 ?m =
        Some (Returns i ((pool_at env k ?m)\<lparr>workers := (workers (pool_at env k ?m))
                         [i := ProcessTTS_set_busy (workers (pool_at env k ?m) ! i)]\<rparr>))"
      by simp
    from MultiTTS_say_eq [OF l this]
    have 1: "MultiTTS_say t0 env req m =
        Returns (i, req)
          ((pool_at env k ?m)
             \<lparr>workers := (workers (pool_at env k ?m))
                [i := ProcessTTS_set_busy (workers (pool_at env k ?m) ! i)],
              lock := False\<rparr>)"
      by simp
    from first_idle_Some [OF f]
    have 2: "i < length (workers (pool_at env k ?m))"
      and 3: "\<not> ProcessTTS_busy (workers (pool_at env k ?m) ! i)"
      by simp_all
    have 4: "ProcessTTS_busy (ProcessTTS_set_busy (workers (pool_at env k ?m) ! i))"
      by (simp add: ProcessTTS_busy_def ProcessTTS_set_busy_def)
    have 5: "queue (ProcessTTS_set_busy (workers (pool_at env k ?m) ! i))
        = queue (workers (pool_at env k ?m) ! i)"
      and 6: "stream (ProcessTTS_set_busy (workers (pool_at env k ?m) ! i))
        = stream (workers (pool_at env k ?m) ! i)"
      by (simp_all add: ProcessTTS_set_busy_def)
    from 1 2 3 4 5 6 show ?thesis by (intro conjI)
  qed
  have c: "MultiTTS_say t0 env req m \<noteq> Blocks"
    if h: "\<not> lock m \<and> (\<forall>j. t0 + (real j + 1) / 20 \<le> snd (env j))"
  proof -
    from h have l: "\<not> lock m" and a: "\<forall>j. t0 + (real j + 1) / 20 \<le> snd (env j)"
      by simp_all
    from a have "t0 + (real 600 + 1) / 20 \<le> snd (env 600)" by blast
    then have "t0 + TIMEOUT < snd (env 600)" by (simp add: TIMEOUT_def)
    from say_loop_ends [where env = env and m = ?m, OF this] obtain r
      where "say_loop (t0 + TIMEOUT) env 0 ?m = Some r" and "r \<noteq> Blocks" by blast
    from MultiTTS_say_eq [OF l this(1)] this(2)
    show ?thesis
      by (cases r) simp_all
  qed
  show ?thesis
    by (rule conjI [OF impI [OF a] conjI [OF impI [OF b] impI [OF c]]])
qed

theorem say_admission_witness:
  "\<not> lock \<lparr>workers = [ProcessTTS_set_busy (ProcessTTS_init [])], lock = False, pool_work = True\<rparr> \<and>
   first_idle (workers (pool_at (\<lambda>j. (\<lambda>p. if j = 1 then p\<lparr>workers := [ProcessTTS_init []]\<rparr> else p, 20 * (real j + 1))) 0
      \<lparr>workers = [ProcessTTS_set_busy (ProcessTTS_init [])], lock = True, pool_work = True\<rparr>)) = None \<and>
   first_idle (workers (pool_at (\<lambda>j. (\<lambda>p. if j = 1 then p\<lparr>workers := [ProcessTTS_init []]\<rparr> else p, 20 * (real j + 1))) (Suc 0)
      \<lparr>workers = [ProcessTTS_set_busy (ProcessTTS_init [])], lock = True, pool_work = True\<rparr>)) = None \<and>
   snd ((\<lambda>j. (\<lambda>p :: MultiTTS. if j = 1 then p\<lparr>workers := [ProcessTTS_init []]\<rparr> else p, 20 * (real j + 1))) 0)
     \<le> 0 + TIMEOUT \<and>
   0 + TIMEOUT
     < snd ((\<lambda>j. (\<lambda>p :: MultiTTS. if j = 1 then p\<lparr>workers := [ProcessTTS_init []]\<rparr> else p, 20 * (real j + 1))) (Suc 0)) \<and>
   first_idle (workers (pool_at (\<lambda>j. (\<lambda>p. if j = 1 then p\<lparr>workers := [ProcessTTS_init []]\<rparr> else p, 20 * (real j + 1))) (Suc (Suc 0))
      \<lparr>workers = [ProcessTTS_set_busy (ProcessTTS_init [])], lock = True, pool_work = True\<rparr>)) = Some 0 \<and>
   MultiTTS_say 0 (\<lambda>j. (\<lambda>p. if j = 1 then p\<lparr>workers := [ProcessTTS_init []]\<rparr> else p, 20 * (real j + 1)))
      (''hi'', ''anna'', ''wav'')
      \<lparr>workers = [ProcessTTS_set_busy (ProcessTTS_init [])], lock = False, pool_work = True\<rparr>
     = Raises (RuntimeError ''Still busy'')
         \<lparr>workers = [ProcessTTS_init []], lock = False, pool_work = True\<rparr> \<and>
   \<not> ProcessTTS_busy (workers \<lparr>workers = [ProcessTTS_init []], lock = False, pool_work = True\<rparr> ! 0) \<and>
   first_idle (workers (pool_at (\<lambda>j. (\<lambda>p. p\<lparr>workers := [ProcessTTS_init []]\<rparr>, (real j + 1) / 20)) (Suc 0)
      \<lparr>workers = [ProcessTTS_set_busy (ProcessTTS_init [])], lock = True, pool_work = True\<rparr>)) = Some 0 \<and>
   MultiTTS_say 0 (\<lambda>j. (\<lambda>p. p\<lparr>workers := [ProcessTTS_init []]\<rparr>, (real j + 1) / 20)) (''hi'', ''anna'', ''wav'')
      \<lparr>workers = [ProcessTTS_set_busy (ProcessTTS_init [])], lock = False, pool_work = True\<rparr>
     = Returns (0, (''hi'', ''anna'', ''wav''))
         \<lparr>workers = [ProcessTTS_set_busy (ProcessTTS_init [])], lock = False, pool_work = True\<rparr> \<and>
   queue (ProcessTTS_set_busy (ProcessTTS_init [])) = [] \<and>
   (\<forall>j. 0 + (real j + 1) / 20 \<le> snd ((\<lambda>j. (\<lambda>p :: MultiTTS. p\<lparr>workers := [ProcessTTS_init []]\<rparr>, (real j + 1) / 20)) j)) \<and>
   MultiTTS_say 0 (\<lambda>j. (\<lambda>p. p\<lparr>workers := [ProcessTTS_init []]\<rparr>, (real j + 1) / 20)) (''hi'', ''anna'', ''wav'')
      \<lparr>workers = [ProcessTTS_set_busy (ProcessTTS_init [])], lock = False, pool_work = True\<rparr> \<noteq> Blocks"
proof -
  let ?busy = "ProcessTTS_set_busy (ProcessTTS_init [])"
  let ?m = "\<lparr>workers = [?busy], lock = False, pool_work = True\<rparr>"
  let ?a = "\<lambda>j. (\<lambda>p :: MultiTTS. if j = 1 then p\<lparr>workers := [ProcessTTS_init []]\<rparr> else p, 20 * (real j + 1))"
  let ?b = "\<lambda>j. (\<lambda>p :: MultiTTS. p\<lparr>workers := [ProcessTTS_init []]\<rparr>, (real j + 1) / 20)"
  let ?req = "(''hi'', ''anna'', ''wav'')"
  have b: "ProcessTTS_busy ?busy" "\<not> ProcessTTS_busy (ProcessTTS_init [])"
    by (simp_all add: ProcessTTS_busy_def ProcessTTS_set_busy_def ProcessTTS_init_def)
  have l: "\<not> lock ?m" by simp
  have a10: "first_idle (workers (pool_at ?a 0 (?m\<lparr>lock := True\<rparr>))) = None"
    and a11: "first_idle (workers (pool_at ?a (Suc 0) (?m\<lparr>lock := True\<rparr>))) = None"
    and a12: "first_idle (workers (pool_at ?a (Suc (Suc 0)) (?m\<lparr>lock := True\<rparr>))) = Some 0"
    using b by simp_all
  have a1: "\<forall>j\<le>Suc 0. first_idle (workers (pool_at ?a j (?m\<lparr>lock := True\<rparr>))) = None"
    using a10 a11 by (auto simp: le_Suc_eq)
  have a2: "\<forall>j<Suc 0. snd (?a j) \<le> 0 + TIMEOUT" by (simp add: TIMEOUT_def)
  have a3: "0 + TIMEOUT < snd (?a (Suc 0))" by (simp add: TIMEOUT_def)
  note ta = say_admission [where m = ?m and env = ?a and k = "Suc 0" and ?t0.0 = 0 and req = ?req
      and n = 0, THEN conjunct1, rule_format, OF conjI [OF l conjI [OF a1 conjI [OF a2 a3]]]]
  from ta have ra: "MultiTTS_say 0 ?a ?req ?m =
      Raises (RuntimeError ''Still busy'') ((pool_at ?a (Suc (Suc 0)) (?m\<lparr>lock := True\<rparr>))\<lparr>lock := False\<rparr>)"
    by (rule conjunct1)
  from ta [THEN conjunct2, rule_format, OF a12]
  have rn: "\<not> ProcessTTS_busy (workers ((pool_at ?a (Suc (Suc 0)) (?m\<lparr>lock := True\<rparr>))\<lparr>lock := False\<rparr>) ! 0)" .
  have b1: "\<forall>j<Suc 0. first_idle (workers (pool_at ?b j (?m\<lparr>lock := True\<rparr>))) = None"
    using b by simp
  have b2: "\<forall>j<Suc 0. snd (?b j) \<le> 0 + TIMEOUT" by (simp add: TIMEOUT_def)
  have b3: "first_idle (workers (pool_at ?b (Suc 0) (?m\<lparr>lock := True\<rparr>))) = Some 0"
    using b by simp
  note tb = say_admission [where m = ?m and env = ?b and k = "Suc 0" and ?t0.0 = 0 and req = ?req and i = 0,
      THEN conjunct2, THEN conjunct1, rule_format, OF conjI [OF l conjI [OF b1 conjI [OF b2 b3]]]]
  from tb have rb: "MultiTTS_say 0 ?b ?req ?m =
        Returns (0, ?req)
          ((pool_at ?b (Suc 0) (?m\<lparr>lock := True\<rparr>))
             \<lparr>workers := (workers (pool_at ?b (Suc 0) (?m\<lparr>lock := True\<rparr>)))
                [0 := ProcessTTS_set_busy (workers (pool_at ?b (Suc 0) (?m\<lparr>lock := True\<rparr>)) ! 0)],
              lock := False\<rparr>)"
    by (rule conjunct1)
  have q: "queue ?busy = []" by (simp add: ProcessTTS_set_busy_def ProcessTTS_init_def)
  have c1: "\<forall>j. 0 + (real j + 1) / 20 \<le> snd (?b j)" by simp
  from say_admission [where m = ?m and env = ?b and ?t0.0 = 0 and req = ?req,
      THEN conjunct2, THEN conjunct2, rule_format, OF conjI [OF l c1]]
  have rc: "MultiTTS_say 0 ?b ?req ?m \<noteq> Blocks" .
  from a2 have a20: "snd (?a 0) \<le> 0 + TIMEOUT" by simp
  have ra': "MultiTTS_say 0 ?a ?req ?m = Raises (RuntimeError ''Still busy'')
         \<lparr>workers = [ProcessTTS_init []], lock = False, pool_work = True\<rparr>"
    using ra by simp
  have rn': "\<not> ProcessTTS_busy (workers \<lparr>workers = [ProcessTTS_init []], lock = False, pool_work = True\<rparr> ! 0)"
    using rn by simp
  have rb': "MultiTTS_say 0 ?b ?req ?m = Returns (0, ?req)
         \<lparr>workers = [ProcessTTS_set_busy (ProcessTTS_init [])], lock = False, pool_work = True\<rparr>"
    using rb by simp
  show ?thesis
    using l a10 a11 a20 a3 a12 ra' rn' b3 rb' q c1 rc by simp
qed

text \<open>
  C3 fails on the pool: the code marks a worker before the format is looked at.  A pool
  of two idle workers without any encoder is asked for \<^verbatim>\<open>mp3\<close>.  \<^verbatim>\<open>MultiTTS.say\<close> marks the
  first worker busy and returns the context manager of its \<^verbatim>\<open>say\<close>; entering it raises
  \<^verbatim>\<open>RuntimeError('Unsupported format: mp3')\<close> and leaves the worker marked busy, with nothing
  queued that would ever clear the mark.  \<^verbatim>\<open>say\<close> of a single worker raises the same
  error with the worker unchanged.
\<close>

theorem MultiTTS_say_unsupported_format:
  "map ProcessTTS_busy (workers (MultiTTS_init 2 [])) = [False, False] \<and>
   MultiTTS_say t0 env (''hi'', ''anna'', ''mp3'') (MultiTTS_init 2 [])
     = Returns (0, (''hi'', ''anna'', ''mp3''))
         ((MultiTTS_init 2 [])\<lparr>workers := [ProcessTTS_set_busy (ProcessTTS_init []), ProcessTTS_init []]\<rparr>) \<and>
   enter (0, (''hi'', ''anna'', ''mp3''))
       ((MultiTTS_init 2 [])\<lparr>workers := [ProcessTTS_set_busy (ProcessTTS_init []), ProcessTTS_init []]\<rparr>)
     = Raises (RuntimeError ''Unsupported format: mp3'')
         ((MultiTTS_init 2 [])\<lparr>workers := [ProcessTTS_set_busy (ProcessTTS_init []), ProcessTTS_init []]\<rparr>) \<and>
   map ProcessTTS_busy [ProcessTTS_set_busy (ProcessTTS_init []), ProcessTTS_init []] = [True, False] \<and>
   BaseTTS_say (''hi'', ''anna'', ''mp3'') (BaseTTS_init [])
     = Raises (RuntimeError ''Unsupported format: mp3'') (BaseTTS_init [])"
proof -
  have i: "\<not> ProcessTTS_busy (ProcessTTS_init [])"
    by (simp add: ProcessTTS_busy_def ProcessTTS_init_def)
  have w: "workers (MultiTTS_init 2 []) = [ProcessTTS_init [], ProcessTTS_init []]"
    by (simp add: MultiTTS_init_def numeral_2_eq_2)
  have l: "say_loop (t0 + TIMEOUT) env 0 ((MultiTTS_init 2 [])\<lparr>lock := True\<rparr>)
      = Some (Returns 0 ((MultiTTS_init 2 [])\<lparr>lock := True,
            workers := [ProcessTTS_set_busy (ProcessTTS_init []), ProcessTTS_init []]\<rparr>))"
    using i by (subst say_loop.simps) (simp add: w)
  have s: "MultiTTS_say t0 env (''hi'', ''anna'', ''mp3'') (MultiTTS_init 2 [])
     = Returns (0, (''hi'', ''anna'', ''mp3''))
         ((MultiTTS_init 2 [])\<lparr>workers := [ProcessTTS_set_busy (ProcessTTS_init []), ProcessTTS_init []]\<rparr>)"
    by (simp add: MultiTTS_say_def l finally_do_def and_then_def) (simp add: MultiTTS_init_def)
  have c: "CMD (ProcessTTS_set_busy (ProcessTTS_init [])) = []"
    by (simp add: ProcessTTS_set_busy_def ProcessTTS_init_def)
  have e: "enter (0, (''hi'', ''anna'', ''mp3''))
       ((MultiTTS_init 2 [])\<lparr>workers := [ProcessTTS_set_busy (ProcessTTS_init []), ProcessTTS_init []]\<rparr>)
     = Raises (RuntimeError ''Unsupported format: mp3'')
         ((MultiTTS_init 2 [])\<lparr>workers := [ProcessTTS_set_busy (ProcessTTS_init []), ProcessTTS_init []]\<rparr>)"
    by (simp add: enter_def BaseTTS_say_def c)
  have b: "map ProcessTTS_busy [ProcessTTS_set_busy (ProcessTTS_init []), ProcessTTS_init []] = [True, False]"
    using i by (simp add: ProcessTTS_busy_def ProcessTTS_set_busy_def)
  have o: "BaseTTS_say (''hi'', ''anna'', ''mp3'') (BaseTTS_init [])
     = Raises (RuntimeError ''Unsupported format: mp3'') (BaseTTS_init [])"
    by (simp add: BaseTTS_say_def BaseTTS_init_def)
  from i w s e b o show ?thesis by simp
qed

end
